theory Spec2Isabelle
  imports
    Main
    "HOL-Library.Word"
    "HOL-Library.Char_ord"
    "HOL-Library.List_Lexorder"
    "HOL-Library.Multiset"
begin

unbundle bit_operations_syntax

section \<open>JavaScript values\<close>

text \<open>
  The client is untyped JavaScript: every argument of every method can be any value.
  The values of the model are \<open>undefined\<close>, \<open>null\<close>, booleans, integer-valued
  numbers, strings, and objects. An object carries its own enumerable properties as an
  association list in insertion order (keys are unique in a JavaScript object, and a list
  built by \<open>put\<close> below keeps them unique; JavaScript lists integer-like keys first,
  and the client sorts the keys where their order matters). A function is an object of
  class \<open>Function\<close>, which records the source text that \<open>String(f)\<close> returns.
  Strings are lists of 8-bit characters, which is exact for ASCII text; non-integer
  numbers and arrays are outside the model.
\<close>

datatype objclass = Plain | Function string

datatype jsval =
    Undefined
  | Null
  | Bool bool
  | Num int
  | Str string
  | Obj objclass "(string \<times> jsval) list"

text \<open>Truthiness, as \<open>if (x)\<close>, \<open>!x\<close> and \<open>x || y\<close> test it.\<close>

fun truthy :: "jsval \<Rightarrow> bool" where
  "truthy Undefined = False"
| "truthy Null = False"
| "truthy (Bool b) = b"
| "truthy (Num n) = (n \<noteq> 0)"
| "truthy (Str s) = (s \<noteq> [])"
| "truthy (Obj c ps) = True"

text \<open>\<open>typeof(x) == 'function'\<close>, \<open>_.isObject\<close> and \<open>_.isUndefined\<close>.\<close>

fun isFunction :: "jsval \<Rightarrow> bool" where
  "isFunction (Obj (Function src) ps) = True"
| "isFunction v = False"

fun isObject :: "jsval \<Rightarrow> bool" where
  "isObject (Obj c ps) = True"
| "isObject v = False"

definition isUndefined :: "jsval \<Rightarrow> bool" where
  "isUndefined v = (v = Undefined)"

text \<open>Decimal rendering of an integer, as \<open>String(n)\<close> gives it for an integer-valued number.\<close>

definition digit :: "nat \<Rightarrow> char" where
  "digit d = ''0123456789'' ! d"

fun digits :: "nat \<Rightarrow> string" where
  "digits n = (if n < 10 then [digit n] else digits (n div 10) @ [digit (n mod 10)])"

definition decimal :: "int \<Rightarrow> string" where
  "decimal n = (if n < 0 then CHR ''-'' # digits (nat (- n)) else digits (nat n))"

text \<open>
  String coercion, as string concatenation (\<open>'' + x\<close>) and property keys apply it.
  A plain object without a \<open>toString\<close> of its own renders as \<open>[object Object]\<close>.
\<close>

fun toString :: "jsval \<Rightarrow> string" where
  "toString Undefined = ''undefined''"
| "toString Null = ''null''"
| "toString (Bool b) = (if b then ''true'' else ''false'')"
| "toString (Num n) = decimal n"
| "toString (Str s) = s"
| "toString (Obj Plain ps) = ''[object Object]''"
| "toString (Obj (Function src) ps) = src"

text \<open>
  Own properties. \<open>keys\<close> is \<open>_.keys\<close> (no keys for a value that is not an object),
  \<open>has\<close> is \<open>_.has\<close> (own property; false for \<open>null\<close> and \<open>undefined\<close>; a string
  primitive owns only \<open>length\<close> and its indices, which nothing here asks for),
  \<open>get\<close> is \<open>obj[k]\<close> for own properties and \<open>set_prop\<close> is \<open>obj[k] = v\<close>: an
  existing key keeps its place, a new key is appended. The client reads a property only
  of a value it has tested (\<open>if (err)\<close>, \<open>_.has\<close>) or of the object whose keys it
  walks, and assigns only to objects, so the reads and writes that would throw (on
  \<open>null\<close> and \<open>undefined\<close>) do not occur.
\<close>

fun keys :: "jsval \<Rightarrow> string list" where
  "keys (Obj c ps) = map fst ps"
| "keys v = []"

fun has :: "jsval \<Rightarrow> string \<Rightarrow> bool" where
  "has (Obj c ps) k = (k \<in> set (map fst ps))"
| "has v k = False"

fun get :: "jsval \<Rightarrow> string \<Rightarrow> jsval" where
  "get (Obj c ps) k = (case map_of ps k of Some v \<Rightarrow> v | None \<Rightarrow> Undefined)"
| "get v k = Undefined"

fun put :: "(string \<times> jsval) list \<Rightarrow> string \<Rightarrow> jsval \<Rightarrow> (string \<times> jsval) list" where
  "put [] k v = [(k, v)]"
| "put (p # ps) k v = (if fst p = k then (k, v) # ps else p # put ps k v)"

fun set_prop :: "jsval \<Rightarrow> string \<Rightarrow> jsval \<Rightarrow> jsval" where
  "set_prop (Obj c ps) k v = Obj c (put ps k v)"
| "set_prop x k v = x"

section \<open>Parameter canonicalisation\<close>

text \<open>
  \<open>formatParameters\<close> sorts the keys (\<open>_.keys(params).sort()\<close>, the default sort:
  ascending by code unit, a proper prefix first) and runs the \<open>for\<close> loop over the index
  \<open>i\<close>, appending \<open>&\<close> before every pair but the first.
\<close>

function formatLoop :: "jsval \<Rightarrow> string list \<Rightarrow> nat \<Rightarrow> string \<Rightarrow> string" where
  "formatLoop params sortedKeys i formattedParams =
     (if i < length sortedKeys then
        formatLoop params sortedKeys (i + 1)
          ((if i \<noteq> 0 then formattedParams @ ''&'' else formattedParams)
             @ sortedKeys ! i @ ''='' @ toString (get params (sortedKeys ! i)))
      else formattedParams)"
  by pat_completeness auto
termination
  by (relation "measure (\<lambda>(params, sortedKeys, i, formattedParams). length sortedKeys - i)") auto

declare formatLoop.simps [simp del]

definition formatParameters :: "jsval \<Rightarrow> string" where
  "formatParameters params = formatLoop params (sort (keys params)) 0 ''''"

text \<open>
  The contract in the specification's words: the \<open>key=value\<close> pairs, joined by \<open>&\<close>.
\<close>

definition pair_text :: "jsval \<Rightarrow> string \<Rightarrow> string" where
  "pair_text params k = k @ ''='' @ toString (get params k)"

fun join :: "string \<Rightarrow> string list \<Rightarrow> string" where
  "join sep [] = []"
| "join sep [x] = x"
| "join sep (x # y # ys) = x @ sep @ join sep (y # ys)"

section \<open>The client object\<close>

text \<open>
  The constructor \<open>OKEX(api_key, secret, server, timeout)\<close> stores its arguments,
  with defaults for a falsy \<open>server\<close> and a falsy \<open>timeout\<close>.
\<close>

record client =
  api_key :: jsval
  secret :: jsval
  server :: jsval
  timeout :: jsval

definition OKEX :: "jsval \<Rightarrow> jsval \<Rightarrow> jsval \<Rightarrow> jsval \<Rightarrow> client" where
  "OKEX k s srv t =
     \<lparr>api_key = k, secret = s,
      server = (if truthy srv then srv else Str ''https://www.okex.com''),
      timeout = (if truthy t then t else Num 20000)\<rparr>"

section \<open>The digest\<close>

text \<open>
  \<open>md5\<close> is the function of the \<open>md5\<close> package the client requires: the MD5 digest
  (RFC 1321) of the message's bytes, rendered by \<open>bytesToHex\<close> as lowercase hexadecimal.
  The message is padded with \<open>0x80\<close>, zeros and its bit length as a little-endian 64-bit
  number to a multiple of 64 bytes; every 64-byte block is read as sixteen little-endian
  32-bit words and run through 64 steps; the four state words are written little-endian.
\<close>

type_synonym byte = "8 word"
type_synonym u32 = "32 word"

definition md5_s :: "nat list" where
  "md5_s =
    [7, 12, 17, 22, 7, 12, 17, 22, 7, 12, 17, 22, 7, 12, 17, 22,
     5, 9, 14, 20, 5, 9, 14, 20, 5, 9, 14, 20, 5, 9, 14, 20,
     4, 11, 16, 23, 4, 11, 16, 23, 4, 11, 16, 23, 4, 11, 16, 23,
     6, 10, 15, 21, 6, 10, 15, 21, 6, 10, 15, 21, 6, 10, 15, 21]"

definition md5_K :: "u32 list" where
  "md5_K =
    [0xd76aa478, 0xe8c7b756, 0x242070db, 0xc1bdceee,
     0xf57c0faf, 0x4787c62a, 0xa8304613, 0xfd469501,
     0x698098d8, 0x8b44f7af, 0xffff5bb1, 0x895cd7be,
     0x6b901122, 0xfd987193, 0xa679438e, 0x49b40821,
     0xf61e2562, 0xc040b340, 0x265e5a51, 0xe9b6c7aa,
     0xd62f105d, 0x02441453, 0xd8a1e681, 0xe7d3fbc8,
     0x21e1cde6, 0xc33707d6, 0xf4d50d87, 0x455a14ed,
     0xa9e3e905, 0xfcefa3f8, 0x676f02d9, 0x8d2a4c8a,
     0xfffa3942, 0x8771f681, 0x6d9d6122, 0xfde5380c,
     0xa4beea44, 0x4bdecfa9, 0xf6bb4b60, 0xbebfbc70,
     0x289b7ec6, 0xeaa127fa, 0xd4ef3085, 0x04881d05,
     0xd9d4d039, 0xe6db99e5, 0x1fa27cf8, 0xc4ac5665,
     0xf4292244, 0x432aff97, 0xab9423a7, 0xfc93a039,
     0x655b59c3, 0x8f0ccc92, 0xffeff47d, 0x85845dd1,
     0x6fa87e4f, 0xfe2ce6e0, 0xa3014314, 0x4e0811a1,
     0xf7537e82, 0xbd3af235, 0x2ad7d2bb, 0xeb86d391]"

definition le_bytes :: "nat \<Rightarrow> 'a::len word \<Rightarrow> byte list" where
  "le_bytes k w = map (\<lambda>i. ucast (drop_bit (8 * i) w)) [0..<k]"

definition md5_pad :: "byte list \<Rightarrow> byte list" where
  "md5_pad m = m @ [0x80] @ replicate ((119 - length m mod 64) mod 64) 0
                 @ le_bytes 8 (word_of_nat (8 * length m) :: 64 word)"

definition le_word :: "byte list \<Rightarrow> u32" where
  "le_word bs = foldr (\<lambda>b w. ucast b OR push_bit 8 w) bs 0"

definition md5_words :: "byte list \<Rightarrow> u32 list" where
  "md5_words blk = map (\<lambda>j. le_word (take 4 (drop (4 * j) blk))) [0..<16]"

type_synonym md5_state = "u32 \<times> u32 \<times> u32 \<times> u32"

fun md5_step :: "u32 list \<Rightarrow> nat \<Rightarrow> md5_state \<Rightarrow> md5_state" where
  "md5_step M i (a, b, c, d) =
     (let f = (if i < 16 then (b AND c) OR (NOT b AND d)
               else if i < 32 then (d AND b) OR (NOT d AND c)
               else if i < 48 then b XOR c XOR d
               else c XOR (b OR NOT d));
          g = (if i < 16 then i
               else if i < 32 then (5 * i + 1) mod 16
               else if i < 48 then (3 * i + 5) mod 16
               else (7 * i) mod 16)
      in (d, b + word_rotl (md5_s ! i) (a + f + md5_K ! i + M ! g), b, c))"

fun md5_block :: "md5_state \<Rightarrow> byte list \<Rightarrow> md5_state" where
  "md5_block (a0, b0, c0, d0) blk =
     (case fold (md5_step (md5_words blk)) [0..<64] (a0, b0, c0, d0) of
        (a, b, c, d) \<Rightarrow> (a0 + a, b0 + b, c0 + c, d0 + d))"

definition md5_blocks :: "byte list \<Rightarrow> byte list list" where
  "md5_blocks p = map (\<lambda>j. take 64 (drop (64 * j) p)) [0..<length p div 64]"

definition md5_digest :: "byte list \<Rightarrow> byte list" where
  "md5_digest m =
     (case fold (\<lambda>blk st. md5_block st blk) (md5_blocks (md5_pad m))
             (0x67452301, 0xefcdab89, 0x98badcfe, 0x10325476) of
        (a, b, c, d) \<Rightarrow> concat (map (le_bytes 4) [a, b, c, d]))"

definition hex_digit :: "nat \<Rightarrow> char" where
  "hex_digit n = ''0123456789abcdef'' ! n"

definition bytesToHex :: "byte list \<Rightarrow> string" where
  "bytesToHex bs = concat (map (\<lambda>b. [hex_digit (unat b div 16), hex_digit (unat b mod 16)]) bs)"

definition stringToBytes :: "string \<Rightarrow> byte list" where
  "stringToBytes message = map (\<lambda>c. of_nat (of_char c)) message"

definition md5 :: "string \<Rightarrow> string" where
  "md5 message = bytesToHex (md5_digest (stringToBytes message))"

text \<open>\<open>toUpperCase\<close> on ASCII text: the letters \<open>a\<close> to \<open>z\<close> become \<open>A\<close> to \<open>Z\<close>.\<close>

definition upper_char :: "char \<Rightarrow> char" where
  "upper_char ch =
     (case map_of (zip ''abcdefghijklmnopqrstuvwxyz'' ''ABCDEFGHIJKLMNOPQRSTUVWXYZ'') ch of
        Some u \<Rightarrow> u
      | None \<Rightarrow> ch)"

definition toUpperCase :: "string \<Rightarrow> string" where
  "toUpperCase s = map upper_char s"

section \<open>The signer\<close>

definition signMessage :: "client \<Rightarrow> jsval \<Rightarrow> string" where
  "signMessage this params =
     (let formattedParams = formatParameters params;
          formattedParams = formattedParams @ ''&secret_key='' @ toString (secret this)
      in toUpperCase (md5 formattedParams))"


section \<open>Requests, replies and errors\<close>

text \<open>
  The options object handed to \<open>request\<close>; a field the source leaves out is
  \<open>undefined\<close>. \<open>headers\<close> is the shared header object.
\<close>

record options =
  opt_url :: string
  opt_method :: string
  opt_headers :: "(string \<times> string) list"
  opt_timeout :: jsval
  opt_qs :: jsval
  opt_json :: jsval
  opt_form :: jsval

definition headers :: "(string \<times> string) list" where
  "headers =
    [(''contentType'', ''application/x-www-form-urlencoded''),
     (''User-Agent'', ''OKEX JavaScript API Wrapper'')]"

text \<open>
  What \<open>request\<close> passes to its callback: \<open>err\<close> (\<open>null\<close>, or the \<open>Error\<close> of
  the transport), \<open>response.statusCode\<close> and \<open>data\<close>. The runtime's side is a parameter of the model: \<open>request\<close> itself (it is
  taken to call back once for every request), \<open>JSON.stringify\<close>, and \<open>JSON.parse\<close>,
  which returns the parsed value or throws (\<open>Inl\<close> the exception).
\<close>

record reply =
  err :: jsval
  statusCode :: int
  data :: jsval

record runtime =
  request :: "options \<Rightarrow> reply"
  JSON_stringify :: "jsval \<Rightarrow> jsval"
  JSON_parse :: "jsval \<Rightarrow> jsval + jsval"

text \<open>
  A \<open>VError\<close> is recorded as the constructor call that built it (the cause, the format
  string and its arguments) with the two properties the client assigns afterwards,
  \<open>name\<close> and \<open>info\<close>. The cause is the \<open>Error\<close> that a call passes before the
  format (the \<open>err\<close> of \<open>request\<close>, the exception of \<open>JSON.parse\<close>), and
  \<open>undefined\<close> when the format comes first.
\<close>

record verror =
  cause :: jsval
  message_format :: string
  message_args :: "jsval list"
  name :: jsval
  info :: jsval

datatype exn = TypeError string | Error string

text \<open>
  The constructor formats its message with \<open>sprintf\<close> of the \<open>extsprintf\<close> package,
  which throws when the format holds a conversion and no argument is left for it; the
  constructor then throws too, and no error object exists. \<open>sprintf\<close> takes the format
  apart with the regular expression
  \<^verbatim>\<open>([^%]*)%(['\-+ #0]*?)([1-9]\d*)?(\.([1-9]\d*))?[lhjztL]*?([diouxXfFeEgGaAcCsSp%jr])\<close>.
  \<open>directive\<close> reads what follows a \<open>%\<close>: flags, a width, a precision, length
  modifiers (as few as possible) and the conversion character; it gives the conversion
  and the text after it, or nothing when no conversion stands there.
\<close>

definition flag_chars :: string where
  "flag_chars = CHR 0x27 # ''-+ #0''"

definition length_modifiers :: string where
  "length_modifiers = ''lhjztL''"

definition conversions :: string where
  "conversions = ''diouxXfFeEgGaAcCsSp%jr''"

definition is_digit :: "char \<Rightarrow> bool" where
  "is_digit c = (c \<in> set ''0123456789'')"

definition skip_number :: "string \<Rightarrow> string option" where
  "skip_number s =
     (case s of
        [] \<Rightarrow> None
      | c # cs \<Rightarrow> if c \<in> set ''123456789'' then Some (dropWhile is_digit cs) else None)"

definition skip_width :: "string \<Rightarrow> string" where
  "skip_width s = (case skip_number s of Some rest \<Rightarrow> rest | None \<Rightarrow> s)"

definition skip_precision :: "string \<Rightarrow> string" where
  "skip_precision s =
     (case s of
        [] \<Rightarrow> s
      | c # cs \<Rightarrow>
          if c = CHR ''.'' then (case skip_number cs of Some rest \<Rightarrow> rest | None \<Rightarrow> s) else s)"

fun conversion_after :: "string \<Rightarrow> (char \<times> string) option" where
  "conversion_after [] = None"
| "conversion_after (c # cs) =
     (if c \<in> set conversions then Some (c, cs)
      else if c \<in> set length_modifiers then conversion_after cs
      else None)"

definition directive :: "string \<Rightarrow> (char \<times> string) option" where
  "directive s =
     conversion_after (skip_precision (skip_width (dropWhile (\<lambda>c. c \<in> set flag_chars) s)))"

text \<open>
  \<open>regex_exec\<close> is \<open>re.exec(fmt)\<close>: the leftmost match. A match begins at the start
  of the format, or right after a \<open>%\<close> that begins no directive, and runs to the end of
  the first directive; the result is the length of the matched text and the conversion.
  \<open>seg\<close> counts the characters since the place where the match would begin.
\<close>

fun regex_exec :: "string \<Rightarrow> nat \<Rightarrow> (nat \<times> char) option" where
  "regex_exec [] seg = None"
| "regex_exec (c # cs) seg =
     (if c = CHR ''%'' then
        (case directive cs of
           Some (conversion, rest) \<Rightarrow> Some (seg + 1 + (length cs - length rest), conversion)
         | None \<Rightarrow> regex_exec cs 0)
      else regex_exec cs (Suc seg))"

text \<open>
  The loop of \<open>sprintf\<close>, as far as it decides between returning and throwing:
  \<open>while ((match = re.exec(fmt)) !== null)\<close>, with
  \<open>fmt = fmt.substring(match[0].length)\<close> in its body. The conversion \<open>%\<close> takes no
  argument; every other conversion throws when no argument is left, and takes one
  otherwise. \<open>n\<close> is the number of arguments left. (The other refusals of
  \<open>sprintf\<close>, of flags, of a precision and of conversions it does not support, come
  after this test and so need an argument; the formats the client passes with arguments
  hold only \<open>%s\<close>.)
\<close>

function sprintf_error :: "string \<Rightarrow> nat \<Rightarrow> exn option" where
  "sprintf_error fmt n =
     (case regex_exec fmt 0 of
        None \<Rightarrow> None
      | Some (len, conversion) \<Rightarrow>
          if conversion = CHR ''%'' then sprintf_error (drop len fmt) n
          else if n = 0 then Some (Error ''too few args to sprintf'')
          else sprintf_error (drop len fmt) (n - 1))"
  by pat_completeness auto
termination
proof -
  have progress: "fmt \<noteq> [] \<and> 0 < len"
    if "regex_exec fmt seg = Some (len, conversion)" for fmt seg len conversion
    using that
    by (induction fmt seg rule: regex_exec.induct)
       (auto split: if_splits option.splits)
  show ?thesis
    by (relation "measure (\<lambda>(fmt, n). length fmt)") (auto dest: progress)
qed

declare sprintf_error.simps [simp del]

definition VError :: "jsval \<Rightarrow> string \<Rightarrow> jsval list \<Rightarrow> exn + verror" where
  "VError c f as =
     (case sprintf_error f (length as) of
        Some x \<Rightarrow> Inl x
      | None \<Rightarrow>
          Inr \<lparr>cause = c, message_format = f, message_args = as, name = Str ''VError'',
               info = Undefined\<rparr>)"

text \<open>
  What a call does. It logs to the console, hands options to \<open>request\<close>, and calls
  the caller's callback with an error (or \<open>null\<close>) first and the data second;
  \<open>callback(error)\<close> leaves the data \<open>undefined\<close>. An outcome lists the events
  \<open>during\<close> the call, says whether the call returns or throws, and lists the events
  \<open>later\<close>, when \<open>request\<close> calls back after the call has returned. Calling a value
  that is not a function throws a \<open>TypeError\<close>. What is thrown in the handler that
  \<open>request\<close> calls back is caught by nobody.
\<close>

datatype event =
    ConsoleLog jsval
  | Request options
  | Callback "verror option" jsval
  | Uncaught exn

datatype completion = Returned | Threw exn

datatype outcome = Outcome (during: "event list") (result: completion) (later: "event list")

definition events :: "outcome \<Rightarrow> event list" where
  "events out = during out @ later out"

text \<open>\<open>return callback(error)\<close>, within the call.\<close>

definition invoke :: "jsval \<Rightarrow> verror option \<Rightarrow> jsval \<Rightarrow> outcome" where
  "invoke callback error returnObject =
     (if isFunction callback then Outcome [Callback error returnObject] Returned []
      else Outcome [] (Threw (TypeError ''callback is not a function'')) [])"

text \<open>
  \<open>var error = new VError(...); return callback(error)\<close>: when the constructor throws,
  so does the call.
\<close>

definition construct :: "exn + verror \<Rightarrow> (verror \<Rightarrow> outcome) \<Rightarrow> outcome" where
  "construct built continue =
     (case built of Inl x \<Rightarrow> Outcome [] (Threw x) [] | Inr error \<Rightarrow> continue error)"

definition after :: "event list \<Rightarrow> outcome \<Rightarrow> outcome" where
  "after evs out = Outcome (evs @ during out) (result out) (later out)"

fun requests :: "event list \<Rightarrow> options list" where
  "requests [] = []"
| "requests (Request opts # evs) = opts # requests evs"
| "requests (ev # evs) = requests evs"

fun uncaught :: "event list \<Rightarrow> exn list" where
  "uncaught [] = []"
| "uncaught (Uncaught x # evs) = x # uncaught evs"
| "uncaught (ev # evs) = uncaught evs"

fun callbacks :: "event list \<Rightarrow> (verror option \<times> jsval) list" where
  "callbacks [] = []"
| "callbacks (Callback error returnObject # evs) = (error, returnObject) # callbacks evs"
| "callbacks (ev # evs) = callbacks evs"

text \<open>
  \<open>util.format\<close> with the \<open>%s\<close> directive, the only one the source uses; an
  argument is rendered by its string coercion.
\<close>

fun util_format :: "string \<Rightarrow> jsval list \<Rightarrow> string" where
  "util_format [] as = concat (map (\<lambda>a. '' '' @ toString a) as)"
| "util_format [c] as = c # util_format [] as"
| "util_format (c # d # rest) as =
     (if c = CHR ''%'' \<and> d = CHR ''s'' then
        (case as of
           [] \<Rightarrow> c # util_format (d # rest) []
         | a # as' \<Rightarrow> toString a @ util_format rest as')
      else c # util_format (d # rest) as)"

section \<open>Error codes\<close>

text \<open>
  The table of \<open>mapErrorMessage\<close>; the keys of the object literal are the decimal
  strings of the codes, the messages are UTF-8 bytes.
\<close>

definition errorCodes :: "(string \<times> string) list" where
  "errorCodes =
    [(''10000'', ''Required parameter can not be null''),
     (''10001'', ''Requests are too frequent''),
     (''10002'', ''System Error''),
     (''10003'', ''Restricted list request, please try again later''),
     (''10004'', ''IP restriction''),
     (''10005'', ''Key does not exist''),
     (''10006'', ''User does not exist''),
     (''10007'', ''Signatures do not match''),
     (''10008'', ''Illegal parameter''),
     (''10009'', ''Order does not exist''),
     (''10010'', ''Insufficient balance''),
     (''10011'', ''Order is less than minimum trade amount''),
     (''10012'', ''Unsupported symbol (not btc_usd or ltc_usd)''),
     (''10013'', ''This interface only accepts https requests''),
     (''10014'', ''Order price must be between 0 and 1,000,000''),
     (''10015'', ''Order price differs from current market price too much''),
     (''10016'', ''Insufficient coins balance''),
     (''10017'', ''API authorization error''),
     (''10026'', ''Loan (including reserved loan) and margin cannot be withdrawn''),
     (''10027'', ''Cannot withdraw within 24 hrs of authentication information modification''),
     (''10028'', ''Withdrawal amount exceeds daily limit''),
     (''10029'', ''Account has unpaid loan, please cancel/pay off the loan before withdraw''),
     (''10031'', ''Deposits can only be withdrawn after 6 confirmations''),
     (''10032'', ''Please enabled phone/google authenticator''),
     (''10033'', ''Fee higher than maximum network transaction fee''),
     (''10034'', ''Fee lower than minimum network transaction fee''),
     (''10035'', ''Insufficient BTC/LTC''),
     (''10036'', ''Withdrawal amount too low''),
     (''10037'', ''Trade password not set''),
     (''10040'', ''Withdrawal cancellation fails''),
     (''10041'', ''Withdrawal address not approved''),
     (''10042'', ''Admin password error''),
     (''10100'', ''User account frozen''),
     (''10216'', ''Non-available API''),
     (''20001'', [CHR 0xE7, CHR 0x94, CHR 0xA8, CHR 0xE6, CHR 0x88, CHR 0xB7, CHR 0xE4, CHR 0xB8,
        CHR 0x8D, CHR 0xE5, CHR 0xAD, CHR 0x98, CHR 0xE5, CHR 0x9C, CHR 0xA8]),
     (''20002'', [CHR 0xE7, CHR 0x94, CHR 0xA8, CHR 0xE6, CHR 0x88, CHR 0xB7, CHR 0xE8, CHR 0xA2,
        CHR 0xAB, CHR 0xE5, CHR 0x86, CHR 0xBB, CHR 0xE7, CHR 0xBB, CHR 0x93]),
     (''20003'', [CHR 0xE7, CHR 0x94, CHR 0xA8, CHR 0xE6, CHR 0x88, CHR 0xB7, CHR 0xE8, CHR 0xA2,
        CHR 0xAB, CHR 0xE7, CHR 0x88, CHR 0x86, CHR 0xE4, CHR 0xBB, CHR 0x93, CHR 0xE5, CHR 0x86,
        CHR 0xBB, CHR 0xE7, CHR 0xBB, CHR 0x93]),
     (''20004'', [CHR 0xE5, CHR 0x90, CHR 0x88, CHR 0xE7, CHR 0xBA, CHR 0xA6, CHR 0xE8, CHR 0xB4,
        CHR 0xA6, CHR 0xE6, CHR 0x88, CHR 0xB7, CHR 0xE8, CHR 0xA2, CHR 0xAB, CHR 0xE5, CHR 0x86,
        CHR 0xBB, CHR 0xE7, CHR 0xBB, CHR 0x93]),
     (''20005'', [CHR 0xE7, CHR 0x94, CHR 0xA8, CHR 0xE6, CHR 0x88, CHR 0xB7, CHR 0xE5, CHR 0x90,
        CHR 0x88, CHR 0xE7, CHR 0xBA, CHR 0xA6, CHR 0xE8, CHR 0xB4, CHR 0xA6, CHR 0xE6, CHR 0x88,
        CHR 0xB7, CHR 0xE4, CHR 0xB8, CHR 0x8D, CHR 0xE5, CHR 0xAD, CHR 0x98, CHR 0xE5, CHR 0x9C,
        CHR 0xA8]),
     (''20006'', [CHR 0xE5, CHR 0xBF, CHR 0x85, CHR 0xE5, CHR 0xA1, CHR 0xAB, CHR 0xE5, CHR 0x8F,
        CHR 0x82, CHR 0xE6, CHR 0x95, CHR 0xB0, CHR 0xE4, CHR 0xB8, CHR 0xBA, CHR 0xE7, CHR 0xA9,
        CHR 0xBA]),
     (''20007'', [CHR 0xE5, CHR 0x8F, CHR 0x82, CHR 0xE6, CHR 0x95, CHR 0xB0, CHR 0xE9, CHR 0x94,
        CHR 0x99, CHR 0xE8, CHR 0xAF, CHR 0xAF]),
     (''20008'', [CHR 0xE5, CHR 0x90, CHR 0x88, CHR 0xE7, CHR 0xBA, CHR 0xA6, CHR 0xE8, CHR 0xB4,
        CHR 0xA6, CHR 0xE6, CHR 0x88, CHR 0xB7, CHR 0xE4, CHR 0xBD, CHR 0x99, CHR 0xE9, CHR 0xA2,
        CHR 0x9D, CHR 0xE4, CHR 0xB8, CHR 0xBA, CHR 0xE7, CHR 0xA9, CHR 0xBA]),
     (''20009'', [CHR 0xE8, CHR 0x99, CHR 0x9A, CHR 0xE6, CHR 0x8B, CHR 0x9F, CHR 0xE5, CHR 0x90,
        CHR 0x88, CHR 0xE7, CHR 0xBA, CHR 0xA6, CHR 0xE7, CHR 0x8A, CHR 0xB6, CHR 0xE6, CHR 0x80,
        CHR 0x81, CHR 0xE9, CHR 0x94, CHR 0x99, CHR 0xE8, CHR 0xAF, CHR 0xAF]),
     (''20010'', [CHR 0xE5, CHR 0x90, CHR 0x88, CHR 0xE7, CHR 0xBA, CHR 0xA6, CHR 0xE9, CHR 0xA3,
        CHR 0x8E, CHR 0xE9, CHR 0x99, CHR 0xA9, CHR 0xE7, CHR 0x8E, CHR 0x87, CHR 0xE4, CHR 0xBF,
        CHR 0xA1, CHR 0xE6, CHR 0x81, CHR 0xAF, CHR 0xE4, CHR 0xB8, CHR 0x8D, CHR 0xE5, CHR 0xAD,
        CHR 0x98, CHR 0xE5, CHR 0x9C, CHR 0xA8]),
     (''20011'', ''10'' @ [CHR 0xE5, CHR 0x80, CHR 0x8D] @ ''/20'' @ [CHR 0xE5, CHR 0x80,
        CHR 0x8D, CHR 0xE6, CHR 0x9D, CHR 0xA0, CHR 0xE6, CHR 0x9D, CHR 0x86, CHR 0xE5, CHR 0xBC,
        CHR 0x80] @ ''BTC'' @ [CHR 0xE5, CHR 0x89, CHR 0x8D, CHR 0xE4, CHR 0xBF, CHR 0x9D,
        CHR 0xE8, CHR 0xAF, CHR 0x81, CHR 0xE9, CHR 0x87, CHR 0x91, CHR 0xE7, CHR 0x8E, CHR 0x87,
        CHR 0xE4, CHR 0xBD, CHR 0x8E, CHR 0xE4, CHR 0xBA, CHR 0x8E] @ ''90%/80%'' @ [CHR 0xEF,
        CHR 0xBC, CHR 0x8C] @ ''10'' @ [CHR 0xE5, CHR 0x80, CHR 0x8D] @ ''/20'' @ [CHR 0xE5,
        CHR 0x80, CHR 0x8D, CHR 0xE6, CHR 0x9D, CHR 0xA0, CHR 0xE6, CHR 0x9D, CHR 0x86, CHR 0xE5,
        CHR 0xBC, CHR 0x80] @ ''LTC'' @ [CHR 0xE5, CHR 0x89, CHR 0x8D, CHR 0xE4, CHR 0xBF,
        CHR 0x9D, CHR 0xE8, CHR 0xAF, CHR 0x81, CHR 0xE9, CHR 0x87, CHR 0x91, CHR 0xE7, CHR 0x8E,
        CHR 0x87, CHR 0xE4, CHR 0xBD, CHR 0x8E, CHR 0xE4, CHR 0xBA, CHR 0x8E] @ ''80%/60%''),
     (''20012'', ''10'' @ [CHR 0xE5, CHR 0x80, CHR 0x8D] @ ''/20'' @ [CHR 0xE5, CHR 0x80,
        CHR 0x8D, CHR 0xE6, CHR 0x9D, CHR 0xA0, CHR 0xE6, CHR 0x9D, CHR 0x86, CHR 0xE5, CHR 0xBC,
        CHR 0x80] @ ''BTC'' @ [CHR 0xE5, CHR 0x90, CHR 0x8E, CHR 0xE4, CHR 0xBF, CHR 0x9D,
        CHR 0xE8, CHR 0xAF, CHR 0x81, CHR 0xE9, CHR 0x87, CHR 0x91, CHR 0xE7, CHR 0x8E, CHR 0x87,
        CHR 0xE4, CHR 0xBD, CHR 0x8E, CHR 0xE4, CHR 0xBA, CHR 0x8E] @ ''90%/80%'' @ [CHR 0xEF,
        CHR 0xBC, CHR 0x8C] @ ''10'' @ [CHR 0xE5, CHR 0x80, CHR 0x8D] @ ''/20'' @ [CHR 0xE5,
        CHR 0x80, CHR 0x8D, CHR 0xE6, CHR 0x9D, CHR 0xA0, CHR 0xE6, CHR 0x9D, CHR 0x86, CHR 0xE5,
        CHR 0xBC, CHR 0x80] @ ''LTC'' @ [CHR 0xE5, CHR 0x90, CHR 0x8E, CHR 0xE4, CHR 0xBF,
        CHR 0x9D, CHR 0xE8, CHR 0xAF, CHR 0x81, CHR 0xE9, CHR 0x87, CHR 0x91, CHR 0xE7, CHR 0x8E,
        CHR 0x87, CHR 0xE4, CHR 0xBD, CHR 0x8E, CHR 0xE4, CHR 0xBA, CHR 0x8E] @ ''80%/60%''),
     (''20013'', [CHR 0xE6, CHR 0x9A, CHR 0x82, CHR 0xE6, CHR 0x97, CHR 0xA0, CHR 0xE5, CHR 0xAF,
        CHR 0xB9, CHR 0xE6, CHR 0x89, CHR 0x8B, CHR 0xE4, CHR 0xBB, CHR 0xB7]),
     (''20014'', [CHR 0xE7, CHR 0xB3, CHR 0xBB, CHR 0xE7, CHR 0xBB, CHR 0x9F, CHR 0xE9, CHR 0x94,
        CHR 0x99, CHR 0xE8, CHR 0xAF, CHR 0xAF]),
     (''20015'', [CHR 0xE8, CHR 0xAE, CHR 0xA2, CHR 0xE5, CHR 0x8D, CHR 0x95, CHR 0xE4, CHR 0xBF,
        CHR 0xA1, CHR 0xE6, CHR 0x81, CHR 0xAF, CHR 0xE4, CHR 0xB8, CHR 0x8D, CHR 0xE5, CHR 0xAD,
        CHR 0x98, CHR 0xE5, CHR 0x9C, CHR 0xA8]),
     (''20016'', [CHR 0xE5, CHR 0xB9, CHR 0xB3, CHR 0xE4, CHR 0xBB, CHR 0x93, CHR 0xE6, CHR 0x95,
        CHR 0xB0, CHR 0xE9, CHR 0x87, CHR 0x8F, CHR 0xE6, CHR 0x98, CHR 0xAF, CHR 0xE5, CHR 0x90,
        CHR 0xA6, CHR 0xE5, CHR 0xA4, CHR 0xA7, CHR 0xE4, CHR 0xBA, CHR 0x8E, CHR 0xE5, CHR 0x90,
        CHR 0x8C, CHR 0xE6, CHR 0x96, CHR 0xB9, CHR 0xE5, CHR 0x90, CHR 0x91, CHR 0xE5, CHR 0x8F,
        CHR 0xAF, CHR 0xE7, CHR 0x94, CHR 0xA8, CHR 0xE6, CHR 0x8C, CHR 0x81, CHR 0xE4, CHR 0xBB,
        CHR 0x93, CHR 0xE6, CHR 0x95, CHR 0xB0, CHR 0xE9, CHR 0x87, CHR 0x8F]),
     (''20017'', [CHR 0xE9, CHR 0x9D, CHR 0x9E, CHR 0xE6, CHR 0x9C, CHR 0xAC, CHR 0xE4, CHR 0xBA,
        CHR 0xBA, CHR 0xE6, CHR 0x93, CHR 0x8D, CHR 0xE4, CHR 0xBD, CHR 0x9C]),
     (''20018'', [CHR 0xE4, CHR 0xB8, CHR 0x8B, CHR 0xE5, CHR 0x8D, CHR 0x95, CHR 0xE4, CHR 0xBB,
        CHR 0xB7, CHR 0xE6, CHR 0xA0, CHR 0xBC, CHR 0xE9, CHR 0xAB, CHR 0x98, CHR 0xE4, CHR 0xBA,
        CHR 0x8E, CHR 0xE5, CHR 0x89, CHR 0x8D, CHR 0xE4, CHR 0xB8, CHR 0x80, CHR 0xE5, CHR 0x88,
        CHR 0x86, CHR 0xE9, CHR 0x92, CHR 0x9F, CHR 0xE7, CHR 0x9A, CHR 0x84] @ ''103%''
        @ [CHR 0xE6, CHR 0x88, CHR 0x96, CHR 0xE4, CHR 0xBD, CHR 0x8E, CHR 0xE4, CHR 0xBA,
        CHR 0x8E] @ ''97%''),
     (''20019'', [CHR 0xE8, CHR 0xAF, CHR 0xA5] @ ''IP'' @ [CHR 0xE9, CHR 0x99, CHR 0x90,
        CHR 0xE5, CHR 0x88, CHR 0xB6, CHR 0xE4, CHR 0xB8, CHR 0x8D, CHR 0xE8, CHR 0x83, CHR 0xBD,
        CHR 0xE8, CHR 0xAF, CHR 0xB7, CHR 0xE6, CHR 0xB1, CHR 0x82, CHR 0xE8, CHR 0xAF, CHR 0xA5,
        CHR 0xE8, CHR 0xB5, CHR 0x84, CHR 0xE6, CHR 0xBA, CHR 0x90]),
     (''20020'', [CHR 0xE5, CHR 0xAF, CHR 0x86, CHR 0xE9, CHR 0x92, CHR 0xA5, CHR 0xE4, CHR 0xB8,
        CHR 0x8D, CHR 0xE5, CHR 0xAD, CHR 0x98, CHR 0xE5, CHR 0x9C, CHR 0xA8]),
     (''20021'', [CHR 0xE6, CHR 0x8C, CHR 0x87, CHR 0xE6, CHR 0x95, CHR 0xB0, CHR 0xE4, CHR 0xBF,
        CHR 0xA1, CHR 0xE6, CHR 0x81, CHR 0xAF, CHR 0xE4, CHR 0xB8, CHR 0x8D, CHR 0xE5, CHR 0xAD,
        CHR 0x98, CHR 0xE5, CHR 0x9C, CHR 0xA8]),
     (''20022'', [CHR 0xE6, CHR 0x8E, CHR 0xA5, CHR 0xE5, CHR 0x8F, CHR 0xA3, CHR 0xE8, CHR 0xB0,
        CHR 0x83, CHR 0xE7, CHR 0x94, CHR 0xA8, CHR 0xE9, CHR 0x94, CHR 0x99, CHR 0xE8, CHR 0xAF,
        CHR 0xAF, CHR 0xEF, CHR 0xBC, CHR 0x88, CHR 0xE5, CHR 0x85, CHR 0xA8, CHR 0xE4, CHR 0xBB,
        CHR 0x93, CHR 0xE6, CHR 0xA8, CHR 0xA1, CHR 0xE5, CHR 0xBC, CHR 0x8F, CHR 0xE8, CHR 0xB0,
        CHR 0x83, CHR 0xE7, CHR 0x94, CHR 0xA8, CHR 0xE5, CHR 0x85, CHR 0xA8, CHR 0xE4, CHR 0xBB,
        CHR 0x93, CHR 0xE6, CHR 0x8E, CHR 0xA5, CHR 0xE5, CHR 0x8F, CHR 0xA3, CHR 0xEF, CHR 0xBC,
        CHR 0x8C, CHR 0xE9, CHR 0x80, CHR 0x90, CHR 0xE4, CHR 0xBB, CHR 0x93, CHR 0xE6, CHR 0xA8,
        CHR 0xA1, CHR 0xE5, CHR 0xBC, CHR 0x8F, CHR 0xE8, CHR 0xB0, CHR 0x83, CHR 0xE7, CHR 0x94,
        CHR 0xA8, CHR 0xE9, CHR 0x80, CHR 0x90, CHR 0xE4, CHR 0xBB, CHR 0x93, CHR 0xE6, CHR 0x8E,
        CHR 0xA5, CHR 0xE5, CHR 0x8F, CHR 0xA3, CHR 0xEF, CHR 0xBC, CHR 0x89]),
     (''20023'', [CHR 0xE9, CHR 0x80, CHR 0x90, CHR 0xE4, CHR 0xBB, CHR 0x93, CHR 0xE7, CHR 0x94,
        CHR 0xA8, CHR 0xE6, CHR 0x88, CHR 0xB7]),
     (''20024'', ''sign'' @ [CHR 0xE7, CHR 0xAD, CHR 0xBE, CHR 0xE5, CHR 0x90, CHR 0x8D, CHR 0xE4,
        CHR 0xB8, CHR 0x8D, CHR 0xE5, CHR 0x8C, CHR 0xB9, CHR 0xE9, CHR 0x85, CHR 0x8D]),
     (''20025'', [CHR 0xE6, CHR 0x9D, CHR 0xA0, CHR 0xE6, CHR 0x9D, CHR 0x86, CHR 0xE6, CHR 0xAF,
        CHR 0x94, CHR 0xE7, CHR 0x8E, CHR 0x87, CHR 0xE9, CHR 0x94, CHR 0x99, CHR 0xE8, CHR 0xAF,
        CHR 0xAF]),
     (''20026'', ''API'' @ [CHR 0xE9, CHR 0x89, CHR 0xB4, CHR 0xE6, CHR 0x9D, CHR 0x83, CHR 0xE9,
        CHR 0x94, CHR 0x99, CHR 0xE8, CHR 0xAF, CHR 0xAF]),
     (''20027'', [CHR 0xE6, CHR 0x97, CHR 0xA0, CHR 0xE4, CHR 0xBA, CHR 0xA4, CHR 0xE6, CHR 0x98,
        CHR 0x93, CHR 0xE8, CHR 0xAE, CHR 0xB0, CHR 0xE5, CHR 0xBD, CHR 0x95]),
     (''20028'', [CHR 0xE5, CHR 0x90, CHR 0x88, CHR 0xE7, CHR 0xBA, CHR 0xA6, CHR 0xE4, CHR 0xB8,
        CHR 0x8D, CHR 0xE5, CHR 0xAD, CHR 0x98, CHR 0xE5, CHR 0x9C, CHR 0xA8]),
     (''20029'', [CHR 0xE8, CHR 0xBD, CHR 0xAC, CHR 0xE5, CHR 0x87, CHR 0xBA, CHR 0xE9, CHR 0x87,
        CHR 0x91, CHR 0xE9, CHR 0xA2, CHR 0x9D, CHR 0xE5, CHR 0xA4, CHR 0xA7, CHR 0xE4, CHR 0xBA,
        CHR 0x8E, CHR 0xE5, CHR 0x8F, CHR 0xAF, CHR 0xE8, CHR 0xBD, CHR 0xAC, CHR 0xE9, CHR 0x87,
        CHR 0x91, CHR 0xE9, CHR 0xA2, CHR 0x9D]),
     (''20030'', [CHR 0xE8, CHR 0xB4, CHR 0xA6, CHR 0xE6, CHR 0x88, CHR 0xB7, CHR 0xE5, CHR 0xAD,
        CHR 0x98, CHR 0xE5, CHR 0x9C, CHR 0xA8, CHR 0xE5, CHR 0x80, CHR 0x9F, CHR 0xE6, CHR 0xAC,
        CHR 0xBE]),
     (''20038'', [CHR 0xE6, CHR 0xA0, CHR 0xB9, CHR 0xE6, CHR 0x8D, CHR 0xAE, CHR 0xE7, CHR 0x9B,
        CHR 0xB8, CHR 0xE5, CHR 0x85, CHR 0xB3, CHR 0xE6, CHR 0xB3, CHR 0x95, CHR 0xE5, CHR 0xBE,
        CHR 0x8B, CHR 0xEF, CHR 0xBC, CHR 0x8C, CHR 0xE6, CHR 0x82, CHR 0xA8, CHR 0xE6, CHR 0x89,
        CHR 0x80, CHR 0xE5, CHR 0x9C, CHR 0xA8, CHR 0xE7, CHR 0x9A, CHR 0x84, CHR 0xE5, CHR 0x9B,
        CHR 0xBD, CHR 0xE5, CHR 0xAE, CHR 0xB6, CHR 0xE6, CHR 0x88, CHR 0x96, CHR 0xE5, CHR 0x9C,
        CHR 0xB0, CHR 0xE5, CHR 0x8C, CHR 0xBA, CHR 0xE4, CHR 0xB8, CHR 0x8D, CHR 0xE8, CHR 0x83,
        CHR 0xBD, CHR 0xE4, CHR 0xBD, CHR 0xBF, CHR 0xE7, CHR 0x94, CHR 0xA8, CHR 0xE8, CHR 0xAF,
        CHR 0xA5, CHR 0xE5, CHR 0x8A, CHR 0x9F, CHR 0xE8, CHR 0x83, CHR 0xBD, CHR 0xE3, CHR 0x80,
        CHR 0x82]),
     (''20049'', [CHR 0xE7, CHR 0x94, CHR 0xA8, CHR 0xE6, CHR 0x88, CHR 0xB7, CHR 0xE8, CHR 0xAF,
        CHR 0xB7, CHR 0xE6, CHR 0xB1, CHR 0x82, CHR 0xE6, CHR 0x8E, CHR 0xA5, CHR 0xE5, CHR 0x8F,
        CHR 0xA3, CHR 0xE8, CHR 0xBF, CHR 0x87, CHR 0xE4, CHR 0xBA, CHR 0x8E, CHR 0xE9, CHR 0xA2,
        CHR 0x91, CHR 0xE7, CHR 0xB9, CHR 0x81]),
     (''20061'', [CHR 0xE5, CHR 0x90, CHR 0x88, CHR 0xE7, CHR 0xBA, CHR 0xA6, CHR 0xE7, CHR 0x9B,
        CHR 0xB8, CHR 0xE5, CHR 0x90, CHR 0x8C, CHR 0xE6, CHR 0x96, CHR 0xB9, CHR 0xE5, CHR 0x90,
        CHR 0x91, CHR 0xE5, CHR 0x8F, CHR 0xAA, CHR 0xE6, CHR 0x94, CHR 0xAF, CHR 0xE6, CHR 0x8C,
        CHR 0x81, CHR 0xE4, CHR 0xB8, CHR 0x80, CHR 0xE4, CHR 0xB8, CHR 0xAA, CHR 0xE6, CHR 0x9D,
        CHR 0xA0, CHR 0xE6, CHR 0x9D, CHR 0x86, CHR 0xEF, CHR 0xBC, CHR 0x8C, CHR 0xE8, CHR 0x8B,
        CHR 0xA5, CHR 0xE6, CHR 0x9C, CHR 0x89] @ ''10'' @ [CHR 0xE5, CHR 0x80, CHR 0x8D,
        CHR 0xE5, CHR 0xA4, CHR 0x9A, CHR 0xE5, CHR 0x8D, CHR 0x95, CHR 0xEF, CHR 0xBC, CHR 0x8C,
        CHR 0xE5, CHR 0xB0, CHR 0xB1, CHR 0xE4, CHR 0xB8, CHR 0x8D, CHR 0xE8, CHR 0x83, CHR 0xBD,
        CHR 0xE5, CHR 0x86, CHR 0x8D, CHR 0xE4, CHR 0xB8, CHR 0x8B] @ ''20'' @ [CHR 0xE5,
        CHR 0x80, CHR 0x8D, CHR 0xE5, CHR 0xA4, CHR 0x9A, CHR 0xE5, CHR 0x8D, CHR 0x95]),
     (''21020'', [CHR 0xE5, CHR 0x90, CHR 0x88, CHR 0xE7, CHR 0xBA, CHR 0xA6, CHR 0xE4, CHR 0xBA,
        CHR 0xA4, CHR 0xE5, CHR 0x89, CHR 0xB2, CHR 0xE4, CHR 0xB8, CHR 0xAD, CHR 0xEF, CHR 0xBC,
        CHR 0x8C, CHR 0xE6, CHR 0x97, CHR 0xA0, CHR 0xE6, CHR 0xB3, CHR 0x95, CHR 0xE4, CHR 0xB8,
        CHR 0x8B, CHR 0xE5, CHR 0x8D, CHR 0x95]),
     (''21021'', [CHR 0xE5, CHR 0x90, CHR 0x88, CHR 0xE7, CHR 0xBA, CHR 0xA6, CHR 0xE6, CHR 0xB8,
        CHR 0x85, CHR 0xE7, CHR 0xAE, CHR 0x97, CHR 0xE4, CHR 0xB8, CHR 0xAD, CHR 0xEF, CHR 0xBC,
        CHR 0x8C, CHR 0xE6, CHR 0x97, CHR 0xA0, CHR 0xE6, CHR 0xB3, CHR 0x95, CHR 0xE4, CHR 0xB8,
        CHR 0x8B, CHR 0xE5, CHR 0x8D, CHR 0x95]),
     (''503'', ''Too many requests (Http)'')]"

text \<open>
  \<open>errorCodes[error_code]\<close> converts the code to a property key and reads the property:
  an entry of the table, else what the object literal inherits from
  \<open>Object.prototype\<close> under that name, else \<open>undefined\<close>.
\<close>

definition Object_prototype :: "string \<Rightarrow> jsval" where
  "Object_prototype k =
     (if k = ''__proto__'' then Obj Plain []
      else if k = ''constructor'' then Obj (Function ''function Object() { [native code] }'') []
      else if k \<in> set [''hasOwnProperty'', ''isPrototypeOf'', ''propertyIsEnumerable'',
                         ''toLocaleString'', ''toString'', ''valueOf'', ''__defineGetter__'',
                         ''__defineSetter__'', ''__lookupGetter__'', ''__lookupSetter__'']
      then Obj (Function (''function '' @ k @ ''() { [native code] }'')) []
      else Undefined)"

definition errorCodes_at :: "jsval \<Rightarrow> jsval" where
  "errorCodes_at error_code =
     (case map_of errorCodes (toString error_code) of
        Some message \<Rightarrow> Str message
      | None \<Rightarrow> Object_prototype (toString error_code))"

definition mapErrorMessage :: "jsval \<Rightarrow> jsval" where
  "mapErrorMessage error_code =
     (if \<not> truthy (errorCodes_at error_code) then
        Str (''Unknown OKEX error code: '' @ toString error_code)
      else errorCodes_at error_code)"

section \<open>Response normalisation\<close>

text \<open>
  \<open>responseHandler\<close> is the function \<open>executeRequest\<close> passes to \<open>request\<close>, up to
  its last statement: it computes \<open>error\<close> and \<open>returnObject\<close>, or throws where a
  \<open>VError\<close> constructor throws (\<open>determined\<close> is the assignment
  \<open>error = new VError(...)\<close> followed by the assignments to the error's properties).
  \<open>determineError\<close> is its chain of \<open>if\<close> and \<open>else if\<close>; the test for
  \<open>error_code\<close> follows it.
  \<open>executeRequest\<close> issues the request and returns; the handler calls the callback
  with the two when \<open>request\<close> calls back.
\<close>

definition determined ::
  "exn + verror \<Rightarrow> (verror \<Rightarrow> verror) \<Rightarrow> jsval \<Rightarrow> exn + (verror option \<times> jsval)" where
  "determined built assign returnObject =
     (case built of
        Inl x \<Rightarrow> Inl x
      | Inr error \<Rightarrow> Inr (Some (assign error), returnObject))"

definition determineError ::
  "runtime \<Rightarrow> options \<Rightarrow> string \<Rightarrow> reply \<Rightarrow> exn + (verror option \<times> jsval)" where
  "determineError rt opts requestDesc r =
     (let functionName = ''OKEX.executeRequest()'' in
      if truthy (err r) then
        determined (VError (err r) ''%s failed %s'' [Str functionName, Str requestDesc])
          (\<lambda>error. error\<lparr>name := get (err r) ''code''\<rparr>)
          (data r)
      else if statusCode r < 200 \<or> statusCode r \<ge> 300 then
        determined
          (VError Undefined ''%s HTTP status code %s returned from %s''
             [Str functionName, Num (statusCode r), Str requestDesc])
          (\<lambda>error. error\<lparr>name := Num (statusCode r)\<rparr>)
          (data r)
      else if truthy (opt_form opts) then
        (case JSON_parse rt (data r) of
           Inr parsed \<Rightarrow> Inr (None, parsed)
         | Inl e \<Rightarrow>
             determined
               (VError e (''Could not parse response from server: '' @ toString (data r)) [])
               (\<lambda>error. error)
               (data r))
      else if truthy (opt_json opts) \<and> \<not> isObject (data r) then
        determined
          (VError Undefined
             (''%s could not parse response from %s'' @ [CHR 0x0A] @ ''Response: %s'')
             [Str functionName, Str requestDesc, data r])
          (\<lambda>error. error)
          (data r)
      else Inr (None, data r))"

definition responseHandler ::
  "runtime \<Rightarrow> options \<Rightarrow> string \<Rightarrow> reply \<Rightarrow> exn + (verror option \<times> jsval)" where
  "responseHandler rt opts requestDesc r =
     (let functionName = ''OKEX.executeRequest()'' in
      case determineError rt opts requestDesc r of
        Inl x \<Rightarrow> Inl x
      | Inr (error, returnObject) \<Rightarrow>
          if has returnObject ''error_code'' then
            (let errorMessage = mapErrorMessage (get returnObject ''error_code'') in
             determined
               (VError Undefined ''%s %s returned error code %s, message: \"%s\"''
                  [Str functionName, Str requestDesc, get returnObject ''error_code'',
                   errorMessage])
               (\<lambda>error. error\<lparr>info := errorMessage, name := get returnObject ''error_code''\<rparr>)
               returnObject)
          else Inr (error, returnObject))"

definition executeRequest :: "runtime \<Rightarrow> options \<Rightarrow> string \<Rightarrow> jsval \<Rightarrow> outcome" where
  "executeRequest rt opts requestDesc callback =
     Outcome [Request opts] Returned
       (case responseHandler rt opts requestDesc (request rt opts) of
          Inl x \<Rightarrow> [Uncaught x]
        | Inr (error, returnObject) \<Rightarrow>
            if isFunction callback then [Callback error returnObject]
            else [Uncaught (TypeError ''callback is not a function'')])"

section \<open>The request builders\<close>

definition privateRequest :: "runtime \<Rightarrow> client \<Rightarrow> jsval \<Rightarrow> jsval \<Rightarrow> jsval \<Rightarrow> outcome" where
  "privateRequest rt this method params callback =
     (let functionName = ''OKEX.privateRequest()'' in
      if \<not> truthy (api_key this) \<or> \<not> truthy (secret this) then
        construct
          (VError Undefined ''%s must provide api_key and secret to make this API request.''
             [Str functionName])
          (\<lambda>error. invoke callback (Some error) Undefined)
      else if \<not> isObject params then
        construct
          (VError Undefined
             ''%s second parameter %s must be an object. If no params then pass an empty object {}''
             [Str functionName, params])
          (\<lambda>error. invoke callback (Some error) Undefined)
      else if \<not> truthy callback \<or> \<not> isFunction callback then
        construct
          (VError Undefined ''%s third parameter needs to be a callback function''
             [Str functionName])
          (\<lambda>error. invoke callback (Some error) Undefined)
      else
        (let params = set_prop params ''api_key'' (api_key this);
             logged = params;
             params = set_prop params ''sign'' (Str (signMessage this params));
             opts = \<lparr>opt_url = toString (server this) @ ''/api/v1/'' @ toString method @ ''.do'',
                     opt_method = ''POST'',
                     opt_headers = headers,
                     opt_timeout = Undefined,
                     opt_qs = Undefined,
                     opt_json = Undefined,
                     opt_form = params\<rparr>;
             requestDesc = util_format ''%s request to url %s with method %s and params %s''
                             [Str (opt_method opts), Str (opt_url opts), method,
                              JSON_stringify rt params]
         in after [ConsoleLog logged] (executeRequest rt opts requestDesc callback)))"

definition publicRequest :: "runtime \<Rightarrow> client \<Rightarrow> jsval \<Rightarrow> jsval \<Rightarrow> jsval \<Rightarrow> outcome" where
  "publicRequest rt this method params callback =
     (let functionName = ''OKEX.publicRequest()'' in
      if \<not> isObject params then
        construct
          (VError Undefined
             ''%s second parameter %s must be an object. If no params then pass an empty object {}''
             [Str functionName, params])
          (\<lambda>error. invoke callback (Some error) Undefined)
      else if \<not> truthy callback \<or> \<not> isFunction callback then
        construct
          (VError Undefined
             ''%s third parameter needs to be a callback function with err and data parameters''
             [Str functionName])
          (\<lambda>error. invoke callback (Some error) Undefined)
      else
        (let url = toString (server this) @ ''/api/v1/'' @ toString method @ ''.do'';
             opts = \<lparr>opt_url = url,
                     opt_method = ''GET'',
                     opt_headers = headers,
                     opt_timeout = timeout this,
                     opt_qs = params,
                     opt_json = Obj Plain [],
                     opt_form = Undefined\<rparr>;
             requestDesc = util_format ''%s request to url %s with parameters %s''
                             [Str (opt_method opts), Str (opt_url opts), JSON_stringify rt params]
         in executeRequest rt opts requestDesc callback))"

section \<open>The endpoint methods\<close>

text \<open>
  Every method takes the callback first; an argument the caller does not supply is
  \<open>undefined\<close>. Object literals list their properties in the order written.
\<close>

definition getTicker :: "runtime \<Rightarrow> client \<Rightarrow> jsval \<Rightarrow> jsval \<Rightarrow> outcome" where
  "getTicker rt this callback symbol =
     publicRequest rt this (Str ''ticker'') (Obj Plain [(''symbol'', symbol)]) callback"

definition getDepth :: "runtime \<Rightarrow> client \<Rightarrow> jsval \<Rightarrow> jsval \<Rightarrow> jsval \<Rightarrow> jsval \<Rightarrow> outcome" where
  "getDepth rt this callback symbol size' merge' =
     (let params = Obj Plain [(''symbol'', symbol), (''size'', Num 200), (''merge'', Num 1)];
          params = (if \<not> isUndefined size' then set_prop params ''size'' size' else params);
          params = (if \<not> isUndefined merge' then set_prop params ''merge'' merge' else params)
      in publicRequest rt this (Str ''depth'') params callback)"

definition getTrades :: "runtime \<Rightarrow> client \<Rightarrow> jsval \<Rightarrow> jsval \<Rightarrow> jsval \<Rightarrow> outcome" where
  "getTrades rt this callback symbol since =
     (let params = Obj Plain [(''symbol'', symbol)];
          params = (if truthy since then set_prop params ''since'' since else params)
      in publicRequest rt this (Str ''trades'') params callback)"

definition getKline ::
  "runtime \<Rightarrow> client \<Rightarrow> jsval \<Rightarrow> jsval \<Rightarrow> jsval \<Rightarrow> jsval \<Rightarrow> jsval \<Rightarrow> outcome" where
  "getKline rt this callback symbol type' size' since =
     (let params = Obj Plain [(''symbol'', symbol)];
          params = (if truthy type' then set_prop params ''type'' type' else params);
          params = (if truthy size' then set_prop params ''size'' size' else params);
          params = (if truthy since then set_prop params ''since'' since else params)
      in publicRequest rt this (Str ''kline'') params callback)"

definition getLendDepth :: "runtime \<Rightarrow> client \<Rightarrow> jsval \<Rightarrow> jsval \<Rightarrow> outcome" where
  "getLendDepth rt this callback symbol =
     publicRequest rt this (Str ''kline'') (Obj Plain [(''symbol'', symbol)]) callback"

definition getUserInfo :: "runtime \<Rightarrow> client \<Rightarrow> jsval \<Rightarrow> outcome" where
  "getUserInfo rt this callback = privateRequest rt this (Str ''userinfo'') (Obj Plain []) callback"

definition addTrade ::
  "runtime \<Rightarrow> client \<Rightarrow> jsval \<Rightarrow> jsval \<Rightarrow> jsval \<Rightarrow> jsval \<Rightarrow> jsval \<Rightarrow> outcome" where
  "addTrade rt this callback symbol type' amount price =
     (let params = Obj Plain [(''symbol'', symbol), (''type'', type')];
          params = (if truthy amount then set_prop params ''amount'' amount else params);
          params = (if truthy price then set_prop params ''price'' price else params)
      in privateRequest rt this (Str ''trade'') params callback)"

definition addBatchTrades ::
  "runtime \<Rightarrow> client \<Rightarrow> jsval \<Rightarrow> jsval \<Rightarrow> jsval \<Rightarrow> jsval \<Rightarrow> outcome" where
  "addBatchTrades rt this callback symbol type' orders =
     privateRequest rt this (Str ''batch_trade'')
       (Obj Plain [(''symbol'', symbol), (''type'', type'), (''orders_data'', orders)]) callback"

definition cancelOrder :: "runtime \<Rightarrow> client \<Rightarrow> jsval \<Rightarrow> jsval \<Rightarrow> jsval \<Rightarrow> outcome" where
  "cancelOrder rt this callback symbol order_id =
     privateRequest rt this (Str ''cancel_order'')
       (Obj Plain [(''symbol'', symbol), (''order_id'', order_id)]) callback"

definition getOrderInfo :: "runtime \<Rightarrow> client \<Rightarrow> jsval \<Rightarrow> jsval \<Rightarrow> jsval \<Rightarrow> outcome" where
  "getOrderInfo rt this callback symbol order_id =
     privateRequest rt this (Str ''order_info'')
       (Obj Plain [(''symbol'', symbol), (''order_id'', order_id)]) callback"

definition getOrdersInfo ::
  "runtime \<Rightarrow> client \<Rightarrow> jsval \<Rightarrow> jsval \<Rightarrow> jsval \<Rightarrow> jsval \<Rightarrow> outcome" where
  "getOrdersInfo rt this callback symbol type' order_id =
     privateRequest rt this (Str ''orders_info'')
       (Obj Plain [(''symbol'', symbol), (''type'', type'), (''order_id'', order_id)]) callback"

definition getAccountRecords ::
  "runtime \<Rightarrow> client \<Rightarrow> jsval \<Rightarrow> jsval \<Rightarrow> jsval \<Rightarrow> jsval \<Rightarrow> jsval \<Rightarrow> outcome" where
  "getAccountRecords rt this callback symbol type' current_page page_length =
     privateRequest rt this (Str ''account_records'')
       (Obj Plain [(''symbol'', symbol), (''type'', type'), (''current_page'', current_page),
                   (''page_length'', page_length)]) callback"

definition getTradeHistory :: "runtime \<Rightarrow> client \<Rightarrow> jsval \<Rightarrow> jsval \<Rightarrow> jsval \<Rightarrow> outcome" where
  "getTradeHistory rt this callback symbol since =
     privateRequest rt this (Str ''trade_history'')
       (Obj Plain [(''symbol'', symbol), (''since'', since)]) callback"

definition getOrderHistory ::
  "runtime \<Rightarrow> client \<Rightarrow> jsval \<Rightarrow> jsval \<Rightarrow> jsval \<Rightarrow> jsval \<Rightarrow> jsval \<Rightarrow> outcome" where
  "getOrderHistory rt this callback symbol status current_page page_length =
     privateRequest rt this (Str ''order_history'')
       (Obj Plain [(''symbol'', symbol), (''status'', status), (''current_page'', current_page),
                   (''page_length'', page_length)]) callback"

definition addWithdraw ::
  "runtime \<Rightarrow> client \<Rightarrow> jsval \<Rightarrow> jsval \<Rightarrow> jsval \<Rightarrow> jsval \<Rightarrow> jsval \<Rightarrow> jsval \<Rightarrow> outcome" where
  "addWithdraw rt this callback symbol chargefee trade_pwd withdraw_address withdraw_amount =
     privateRequest rt this (Str ''withdraw'')
       (Obj Plain [(''symbol'', symbol), (''chargefee'', chargefee), (''trade_pwd'', trade_pwd),
                   (''withdraw_address'', withdraw_address),
                   (''withdraw_amount'', withdraw_amount)]) callback"

definition cancelWithdraw :: "runtime \<Rightarrow> client \<Rightarrow> jsval \<Rightarrow> jsval \<Rightarrow> jsval \<Rightarrow> outcome" where
  "cancelWithdraw rt this callback symbol withdraw_id =
     privateRequest rt this (Str ''cancel_withdraw'')
       (Obj Plain [(''symbol'', symbol), (''withdraw_id'', withdraw_id)]) callback"

subsection \<open>Futures\<close>

definition handleContractType :: "jsval \<Rightarrow> jsval \<Rightarrow> jsval" where
  "handleContractType params contract_type =
     (let params = set_prop params ''contract_type'' (Str ''quarter'');
          params = (if truthy contract_type then set_prop params ''contract_type'' contract_type
                    else params)
      in params)"

definition getFutureTicker :: "runtime \<Rightarrow> client \<Rightarrow> jsval \<Rightarrow> jsval \<Rightarrow> jsval \<Rightarrow> outcome" where
  "getFutureTicker rt this callback symbol contract_type =
     (let params = Obj Plain [(''symbol'', symbol), (''contract_type'', Str ''quarter'')];
          params = (if truthy contract_type then set_prop params ''contract_type'' contract_type
                    else params)
      in publicRequest rt this (Str ''future_ticker'') params callback)"

definition getFutureDepth ::
  "runtime \<Rightarrow> client \<Rightarrow> jsval \<Rightarrow> jsval \<Rightarrow> jsval \<Rightarrow> jsval \<Rightarrow> jsval \<Rightarrow> outcome" where
  "getFutureDepth rt this callback symbol size' merge' contract_type =
     (let params = Obj Plain [(''symbol'', symbol), (''size'', Num 200), (''merge'', Num 1)];
          params = (if \<not> isUndefined size' then set_prop params ''size'' size' else params);
          params = (if \<not> isUndefined merge' then set_prop params ''merge'' merge' else params)
      in publicRequest rt this (Str ''future_depth'') (handleContractType params contract_type)
           callback)"

definition getFutureTrades :: "runtime \<Rightarrow> client \<Rightarrow> jsval \<Rightarrow> jsval \<Rightarrow> jsval \<Rightarrow> outcome" where
  "getFutureTrades rt this callback symbol contract_type =
     (let params = Obj Plain [(''symbol'', symbol)]
      in publicRequest rt this (Str ''future_trades'') (handleContractType params contract_type)
           callback)"

definition getFutureIndex :: "runtime \<Rightarrow> client \<Rightarrow> jsval \<Rightarrow> jsval \<Rightarrow> outcome" where
  "getFutureIndex rt this callback symbol =
     (let params = Obj Plain [(''symbol'', symbol)]
      in publicRequest rt this (Str ''future_index'') params callback)"

definition getExchangeRate :: "runtime \<Rightarrow> client \<Rightarrow> jsval \<Rightarrow> outcome" where
  "getExchangeRate rt this callback =
     publicRequest rt this (Str ''exchange_rate'') (Obj Plain []) callback"

definition getFutureKline ::
  "runtime \<Rightarrow> client \<Rightarrow> jsval \<Rightarrow> jsval \<Rightarrow> jsval \<Rightarrow> jsval \<Rightarrow> jsval \<Rightarrow> jsval \<Rightarrow> outcome" where
  "getFutureKline rt this callback symbol type' size' since contract_type =
     (let params = Obj Plain [(''symbol'', symbol)];
          params = (if truthy type' then set_prop params ''type'' type' else params);
          params = (if truthy size' then set_prop params ''size'' size' else params);
          params = (if truthy since then set_prop params ''since'' since else params)
      in publicRequest rt this (Str ''future_kline'') (handleContractType params contract_type)
           callback)"

definition getFutureHoldAmount :: "runtime \<Rightarrow> client \<Rightarrow> jsval \<Rightarrow> jsval \<Rightarrow> jsval \<Rightarrow> outcome" where
  "getFutureHoldAmount rt this callback symbol contract_type =
     (let params = Obj Plain [(''symbol'', symbol)]
      in publicRequest rt this (Str ''future_hold_amount'')
           (handleContractType params contract_type) callback)"

definition getFutureUserInfo :: "runtime \<Rightarrow> client \<Rightarrow> jsval \<Rightarrow> outcome" where
  "getFutureUserInfo rt this callback =
     privateRequest rt this (Str ''future_userinfo'') (Obj Plain []) callback"

definition getFuturePosition :: "runtime \<Rightarrow> client \<Rightarrow> jsval \<Rightarrow> jsval \<Rightarrow> jsval \<Rightarrow> outcome" where
  "getFuturePosition rt this callback symbol contract_type =
     (let params = Obj Plain [(''symbol'', symbol)]
      in privateRequest rt this (Str ''future_position'')
           (handleContractType params contract_type) callback)"

definition addFutureTrade ::
  "runtime \<Rightarrow> client \<Rightarrow> jsval \<Rightarrow> jsval \<Rightarrow> jsval \<Rightarrow> jsval \<Rightarrow> jsval \<Rightarrow> jsval \<Rightarrow> jsval \<Rightarrow> outcome" where
  "addFutureTrade rt this callback symbol type' amount price match_price contract_type =
     (let params = Obj Plain [(''symbol'', symbol), (''type'', type')];
          params = (if truthy amount then set_prop params ''amount'' amount else params);
          params = (if truthy price then set_prop params ''price'' price else params);
          params = (if truthy match_price then set_prop params ''match_price'' match_price
                    else params)
      in privateRequest rt this (Str ''trade'') (handleContractType params contract_type)
           callback)"

definition cancelFutureOrder ::
  "runtime \<Rightarrow> client \<Rightarrow> jsval \<Rightarrow> jsval \<Rightarrow> jsval \<Rightarrow> jsval \<Rightarrow> outcome" where
  "cancelFutureOrder rt this callback symbol order_id contract_type =
     (let params = Obj Plain [(''symbol'', symbol), (''order_id'', order_id)]
      in privateRequest rt this (Str ''cancel_order'') (handleContractType params contract_type)
           callback)"

text \<open>
  \<open>order_id == '-1'\<close>: equal to the string \<open>-1\<close> after the coercions of \<open>==\<close>
  (a number is compared with the number the string denotes, an object with its string).
\<close>

fun equals_minus_one :: "jsval \<Rightarrow> bool" where
  "equals_minus_one (Str s) = (s = ''-1'')"
| "equals_minus_one (Num n) = (n = - 1)"
| "equals_minus_one (Obj c ps) = (toString (Obj c ps) = ''-1'')"
| "equals_minus_one v = False"

definition getFutureOrderInfo ::
  "runtime \<Rightarrow> client \<Rightarrow> jsval \<Rightarrow> jsval \<Rightarrow> jsval \<Rightarrow> jsval \<Rightarrow> jsval \<Rightarrow> outcome" where
  "getFutureOrderInfo rt this callback symbol order_id status contract_type =
     (let params = Obj Plain [(''symbol'', symbol), (''order_id'', order_id)];
          params = (if equals_minus_one order_id then set_prop params ''status'' status
                    else params)
      in privateRequest rt this (Str ''future_order_info'')
           (handleContractType params contract_type) callback)"

definition getFutureUserInfoFix :: "runtime \<Rightarrow> client \<Rightarrow> jsval \<Rightarrow> outcome" where
  "getFutureUserInfoFix rt this callback =
     privateRequest rt this (Str ''future_userinfo_4fix'') (Obj Plain []) callback"

definition getFuturePositionFix :: "runtime \<Rightarrow> client \<Rightarrow> jsval \<Rightarrow> jsval \<Rightarrow> jsval \<Rightarrow> outcome" where
  "getFuturePositionFix rt this callback symbol contract_type =
     (let params = Obj Plain [(''symbol'', symbol)]
      in privateRequest rt this (Str ''future_position_4fix'')
           (handleContractType params contract_type) callback)"

section \<open>Vocabulary of the claims\<close>

text \<open>
  The errors the client builds, by the kind the specification gives them: the
  configuration error and the argument error of \<open>privateRequest\<close>, the HTTP failure and
  the exchange-reported error of \<open>executeRequest\<close>.
\<close>

definition configurationError :: verror where
  "configurationError =
     \<lparr>cause = Undefined,
      message_format = ''%s must provide api_key and secret to make this API request.'',
      message_args = [Str ''OKEX.privateRequest()''],
      name = Str ''VError'',
      info = Undefined\<rparr>"

definition argumentError :: "jsval \<Rightarrow> verror" where
  "argumentError params =
     \<lparr>cause = Undefined,
      message_format =
        ''%s second parameter %s must be an object. If no params then pass an empty object {}'',
      message_args = [Str ''OKEX.privateRequest()'', params],
      name = Str ''VError'',
      info = Undefined\<rparr>"

definition httpError :: "string \<Rightarrow> int \<Rightarrow> verror" where
  "httpError requestDesc status =
     \<lparr>cause = Undefined,
      message_format = ''%s HTTP status code %s returned from %s'',
      message_args = [Str ''OKEX.executeRequest()'', Num status, Str requestDesc],
      name = Num status,
      info = Undefined\<rparr>"

definition exchangeError :: "string \<Rightarrow> jsval \<Rightarrow> verror" where
  "exchangeError requestDesc code =
     \<lparr>cause = Undefined,
      message_format = ''%s %s returned error code %s, message: \"%s\"'',
      message_args = [Str ''OKEX.executeRequest()'', Str requestDesc, code, mapErrorMessage code],
      name = code,
      info = mapErrorMessage code\<rparr>"



text \<open>
  The parameter mapping a call hands to \<open>request\<close>: the query string of a
  \<open>GET\<close>, the form of a \<open>POST\<close>.
\<close>

definition wire_params :: "outcome \<Rightarrow> jsval list" where
  "wire_params out =
     map (\<lambda>opts. if opt_method opts = ''GET'' then opt_qs opts else opt_form opts)
       (requests (events out))"

text \<open>
  For the examples: a runtime whose \<open>request\<close> answers \<open>r\<close>, whose
  \<open>JSON.stringify\<close> gives \<open>text\<close> and whose \<open>JSON.parse\<close> gives \<open>parsed\<close>, and the
  callback of \<open>example.js\<close>.
\<close>

definition example_runtime :: "reply \<Rightarrow> jsval \<Rightarrow> jsval + jsval \<Rightarrow> runtime" where
  "example_runtime r text parsed =
     \<lparr>request = (\<lambda>opts. r), JSON_stringify = (\<lambda>v. text), JSON_parse = (\<lambda>v. parsed)\<rparr>"

definition logResponse :: jsval where
  "logResponse = Obj (Function ''function logResponse(err, data) { }'') []"

section \<open>Canonicalisation: proofs\<close>

lemma join_Cons: "join sep (x # xs) = x @ concat (map (\<lambda>s. sep @ s) xs)"
  by (induction xs arbitrary: x) simp_all

lemma formatLoop_tail:
  "0 < i \<Longrightarrow> formatLoop params ks i acc
     = acc @ concat (map (\<lambda>k. ''&'' @ pair_text params k) (drop i ks))"
proof (induction params ks i acc rule: formatLoop.induct)
  case (1 params ks i acc)
  show ?case
  proof (cases "i < length ks")
    case True
    have "drop i ks = ks ! i # drop (Suc i) ks"
      using True by (simp add: Cons_nth_drop_Suc)
    with True "1.prems" "1.IH" show ?thesis
      by (simp add: formatLoop.simps [of params ks i acc] pair_text_def)
  next
    case False
    then show ?thesis
      by (simp add: formatLoop.simps [of params ks i acc])
  qed
qed

lemma formatLoop_join:
  "formatLoop params ks 0 [] = join ''&'' (map (pair_text params) ks)"
proof (cases ks)
  case Nil
  then show ?thesis by (simp add: formatLoop.simps [of params "[]" 0])
next
  case (Cons k rest)
  have "formatLoop params ks 0 [] = formatLoop params ks 1 (pair_text params k)"
    using Cons by (simp add: formatLoop.simps [of params "k # rest" 0] pair_text_def)
  also have "\<dots> = pair_text params k @ concat (map (\<lambda>k. ''&'' @ pair_text params k) (drop 1 ks))"
    by (rule formatLoop_tail) simp
  finally show ?thesis
    using Cons by (simp add: join_Cons comp_def)
qed

lemma formatParameters_join:
  "formatParameters params = join ''&'' (map (pair_text params) (sort (keys params)))"
  by (simp add: formatParameters_def formatLoop_join)

lemma sort_keys_cong:
  assumes "distinct (map fst ps)" "distinct (map fst qs)" "set ps = set qs"
  shows "sort (map fst ps) = sort (map fst qs)"
proof -
  have "set (map fst ps) = set (map fst qs)"
    using assms(3) by simp
  with assms(1,2) have "mset (map fst ps) = mset (map fst qs)"
    by (metis set_eq_iff_mset_eq_distinct)
  then have "mset (sort (map fst qs)) = mset (map fst ps)"
    by simp
  then show ?thesis
    by (rule properties_for_sort) simp
qed

lemma get_cong:
  assumes "distinct (map fst ps)" "distinct (map fst qs)" "set ps = set qs"
  shows "get (Obj c ps) k = get (Obj c' qs) k"
proof -
  have "map_of ps = map_of qs"
    using assms by (simp add: map_of_inject_set)
  then show ?thesis by simp
qed

text \<open>
  C1. For every parameter mapping, \<open>formatParameters\<close> returns the \<open>key=value\<close> pairs
  joined by \<open>&\<close>, the keys in ascending lexicographic order (a sorted permutation of the
  mapping's keys), each value's text concatenated as it is (a string value stands
  unescaped); the empty mapping gives the empty string, and two mappings with the same
  key/value pairs, whatever their insertion order, give the same canonical string.
\<close>

theorem formatParameters_canonical:
  "formatParameters (Obj c ps)
     = join ''&'' (map (\<lambda>k. k @ ''='' @ toString (get (Obj c ps) k)) (sort (map fst ps)))
   \<and> sorted (sort (map fst ps)) \<and> mset (sort (map fst ps)) = mset (map fst ps)
   \<and> toString (Str v) = v
   \<and> formatParameters (Obj c []) = []
   \<and> (distinct (map fst ps) \<and> distinct (map fst qs) \<and> set ps = set qs
        \<longrightarrow> formatParameters (Obj c ps) = formatParameters (Obj c' qs))"
proof -
  have canon: "formatParameters (Obj c ps)
     = join ''&'' (map (\<lambda>k. k @ ''='' @ toString (get (Obj c ps) k)) (sort (map fst ps)))"
    by (simp add: formatParameters_join pair_text_def [abs_def])
  have empty: "formatParameters (Obj c []) = []"
    by (simp add: formatParameters_join)
  have indep: "formatParameters (Obj c ps) = formatParameters (Obj c' qs)"
    if "distinct (map fst ps)" "distinct (map fst qs)" "set ps = set qs"
  proof -
    have "pair_text (Obj c ps) = pair_text (Obj c' qs)"
      using get_cong [OF that] by (simp add: pair_text_def fun_eq_iff)
    then show ?thesis
      using sort_keys_cong [OF that] by (simp add: formatParameters_join)
  qed
  show ?thesis
    using canon empty indep by simp
qed

theorem formatParameters_canonical_witness:
  "formatParameters (Obj Plain [(''b'', Num 2), (''a'', Num 1)]) = ''a=1&b=2''
   \<and> formatParameters (Obj Plain [(''a'', Num 1), (''b'', Num 2)]) = ''a=1&b=2''
   \<and> formatParameters (Obj Plain [(''q'', Str ''x y&z=%'')]) = ''q=x y&z=%''"
proof -
  let ?ba = "[(''b'', Num 2), (''a'', Num 1)]" and ?ab = "[(''a'', Num 1), (''b'', Num 2)]"
  note ba = formatParameters_canonical [where c = Plain and ps = ?ba and c' = Plain and qs = ?ab]
  have same: "set ?ba = set ?ab"
    by auto
  have 1: "formatParameters (Obj Plain ?ba) = ''a=1&b=2''"
    using ba by (simp add: decimal_def digit_def)
  have pre: "distinct (map fst ?ba) \<and> distinct (map fst ?ab) \<and> set ?ba = set ?ab"
    using same by simp
  have "distinct (map fst ?ba) \<and> distinct (map fst ?ab) \<and> set ?ba = set ?ab
      \<longrightarrow> formatParameters (Obj Plain ?ba) = formatParameters (Obj Plain ?ab)"
    using ba by blast
  with pre have "formatParameters (Obj Plain ?ba) = formatParameters (Obj Plain ?ab)"
    by blast
  with 1 have 2: "formatParameters (Obj Plain ?ab) = ''a=1&b=2''"
    by simp
  have 3: "formatParameters (Obj Plain [(''q'', Str ''x y&z=%'')]) = ''q=x y&z=%''"
    using formatParameters_canonical [where c = Plain and ps = "[(''q'', Str ''x y&z=%'')]"]
    by simp
  show ?thesis
    using 1 2 3 by simp
qed

section \<open>The signer: proofs\<close>

lemma length_le_bytes: "length (le_bytes k w) = k"
  by (simp add: le_bytes_def)

lemma length_md5_digest: "length (md5_digest m) = 16"
  by (simp add: md5_digest_def length_le_bytes split: prod.splits)

lemma hex_digit_lower: "n < 16 \<Longrightarrow> hex_digit n \<in> set ''0123456789abcdef''"
  unfolding hex_digit_def by (rule nth_mem) simp

lemma length_bytesToHex: "length (bytesToHex bs) = 2 * length bs"
  by (induction bs) (simp_all add: bytesToHex_def)

lemma byte_nibbles: "unat (b :: byte) div 16 < 16" "unat b mod 16 < 16"
proof -
  have "unat b < 2 ^ LENGTH(8)"
    by (rule unsigned_less)
  then show "unat b div 16 < 16"
    by simp
  show "unat b mod 16 < 16"
    by simp
qed

lemma set_bytesToHex: "set (bytesToHex bs) \<subseteq> set ''0123456789abcdef''"
proof (induction bs)
  case Nil
  show ?case by (simp add: bytesToHex_def)
next
  case (Cons b bs)
  have "hex_digit (unat b div 16) \<in> set ''0123456789abcdef''"
    "hex_digit (unat b mod 16) \<in> set ''0123456789abcdef''"
    by (rule hex_digit_lower, rule byte_nibbles)+
  with Cons show ?case
    unfolding bytesToHex_def by simp
qed

lemma upper_hex_map: "map upper_char ''0123456789abcdef'' = ''0123456789ABCDEF''"
  by code_simp

lemma upper_char_hex:
  assumes "ch \<in> set ''0123456789abcdef''"
  shows "upper_char ch \<in> set ''0123456789ABCDEF''"
proof -
  from assms have "upper_char ch \<in> upper_char ` set ''0123456789abcdef''"
    by (rule imageI)
  then have "upper_char ch \<in> set (map upper_char ''0123456789abcdef'')"
    by (simp only: set_map)
  then show ?thesis
    by (simp only: upper_hex_map)
qed

text \<open>
  C2. For every parameter mapping and secret, \<open>signMessage\<close> returns the uppercase
  hexadecimal rendering of the MD5 digest (16 bytes, 128 bits) of the canonical string
  followed by \<open>&secret_key=\<close> and the secret; the result always has 32 characters, each
  one of \<open>0123456789ABCDEF\<close>.
\<close>

theorem signMessage_upper_hex_md5:
  "signMessage this params
     = toUpperCase (bytesToHex (md5_digest (stringToBytes
         (formatParameters params @ ''&secret_key='' @ toString (secret this)))))
   \<and> length (md5_digest (stringToBytes
         (formatParameters params @ ''&secret_key='' @ toString (secret this)))) = 16
   \<and> length (signMessage this params) = 32
   \<and> set (signMessage this params) \<subseteq> set ''0123456789ABCDEF''"
proof -
  let ?m = "formatParameters params @ ''&secret_key='' @ toString (secret this)"
  have sign: "signMessage this params = toUpperCase (bytesToHex (md5_digest (stringToBytes ?m)))"
    by (simp add: signMessage_def md5_def)
  have len: "length (signMessage this params) = 32"
    by (simp add: sign toUpperCase_def length_bytesToHex length_md5_digest)
  have "set (signMessage this params) = upper_char ` set (bytesToHex (md5_digest (stringToBytes ?m)))"
    by (simp add: sign toUpperCase_def)
  also have "\<dots> \<subseteq> set ''0123456789ABCDEF''"
    using set_bytesToHex upper_char_hex by blast
  finally have hex: "set (signMessage this params) \<subseteq> set ''0123456789ABCDEF''" .
  show ?thesis
    using sign len hex length_md5_digest by simp
qed

section \<open>Requests and responses: proofs\<close>

lemmas sprintf_eval =
  sprintf_error.simps directive_def flag_chars_def conversions_def length_modifiers_def
  skip_width_def skip_precision_def skip_number_def is_digit_def

text \<open>The formats the client passes with their arguments never make the constructor throw.\<close>

lemma VError_credentials:
  "VError c ''%s must provide api_key and secret to make this API request.'' [a]
     = Inr \<lparr>cause = c,
            message_format = ''%s must provide api_key and secret to make this API request.'',
            message_args = [a], name = Str ''VError'', info = Undefined\<rparr>"
  by (simp add: VError_def sprintf_eval)

lemma VError_params:
  "VError c ''%s second parameter %s must be an object. If no params then pass an empty object {}''
       [a, b]
     = Inr \<lparr>cause = c,
            message_format =
              ''%s second parameter %s must be an object. If no params then pass an empty object {}'',
            message_args = [a, b], name = Str ''VError'', info = Undefined\<rparr>"
  by (simp add: VError_def sprintf_eval)

lemma VError_callback:
  "VError c ''%s third parameter needs to be a callback function'' [a]
     = Inr \<lparr>cause = c, message_format = ''%s third parameter needs to be a callback function'',
            message_args = [a], name = Str ''VError'', info = Undefined\<rparr>"
  "VError c ''%s third parameter needs to be a callback function with err and data parameters'' [a]
     = Inr \<lparr>cause = c,
            message_format =
              ''%s third parameter needs to be a callback function with err and data parameters'',
            message_args = [a], name = Str ''VError'', info = Undefined\<rparr>"
  by (simp_all add: VError_def sprintf_eval)

lemma VError_failed:
  "VError c ''%s failed %s'' [a, b]
     = Inr \<lparr>cause = c, message_format = ''%s failed %s'', message_args = [a, b],
            name = Str ''VError'', info = Undefined\<rparr>"
  by (simp add: VError_def sprintf_eval)

lemma VError_status:
  "VError c ''%s HTTP status code %s returned from %s'' [a, b, d]
     = Inr \<lparr>cause = c, message_format = ''%s HTTP status code %s returned from %s'',
            message_args = [a, b, d], name = Str ''VError'', info = Undefined\<rparr>"
  by (simp add: VError_def sprintf_eval)

lemma VError_unparsed:
  "VError c (''%s could not parse response from %s'' @ [CHR 0x0A] @ ''Response: %s'') [a, b, d]
     = Inr \<lparr>cause = c,
            message_format = ''%s could not parse response from %s'' @ [CHR 0x0A] @ ''Response: %s'',
            message_args = [a, b, d], name = Str ''VError'', info = Undefined\<rparr>"
  by (simp add: VError_def sprintf_eval)

lemma VError_code:
  "VError c ''%s %s returned error code %s, message: \"%s\"'' [a, b, d, e]
     = Inr \<lparr>cause = c, message_format = ''%s %s returned error code %s, message: \"%s\"'',
            message_args = [a, b, d, e], name = Str ''VError'', info = Undefined\<rparr>"
  by (simp add: VError_def sprintf_eval)

lemmas VError_fixed =
  VError_credentials VError_params VError_callback VError_failed VError_status VError_unparsed
  VError_code


lemma invoke_function:
  "isFunction callback \<Longrightarrow> invoke callback e d = Outcome [Callback e d] Returned []"
  by (simp add: invoke_def)

lemma invoke_other:
  "\<not> isFunction callback \<Longrightarrow>
   invoke callback e d = Outcome [] (Threw (TypeError ''callback is not a function'')) []"
  by (simp add: invoke_def)


lemma requests_executeRequest:
  "requests (events (executeRequest rt opts requestDesc callback)) = [opts]"
  by (simp add: executeRequest_def events_def split: sum.splits prod.splits)

lemma publicRequest_function:
  "isFunction callback \<Longrightarrow> isObject params \<Longrightarrow>
   requests (events (publicRequest rt this method params callback)) =
     [\<lparr>opt_url = toString (server this) @ ''/api/v1/'' @ toString method @ ''.do'',
       opt_method = ''GET'', opt_headers = headers, opt_timeout = timeout this,
       opt_qs = params, opt_json = Obj Plain [], opt_form = Undefined\<rparr>]"
  by (cases callback)
     (auto simp: publicRequest_def Let_def requests_executeRequest)

lemma events_after: "events (after evs out) = evs @ events out"
  by (simp add: events_def after_def)

lemma privateRequest_function:
  "isFunction callback \<Longrightarrow> isObject params \<Longrightarrow> truthy (api_key this) \<Longrightarrow> truthy (secret this) \<Longrightarrow>
   requests (events (privateRequest rt this method params callback)) =
     [\<lparr>opt_url = toString (server this) @ ''/api/v1/'' @ toString method @ ''.do'',
       opt_method = ''POST'', opt_headers = headers, opt_timeout = Undefined,
       opt_qs = Undefined, opt_json = Undefined,
       opt_form = set_prop (set_prop params ''api_key'' (api_key this)) ''sign''
                    (Str (signMessage this (set_prop params ''api_key'' (api_key this))))\<rparr>]"
  by (cases callback)
     (auto simp: privateRequest_def Let_def events_after requests_executeRequest)

lemma wire_public:
  "isFunction callback \<Longrightarrow> isObject params \<Longrightarrow>
   wire_params (publicRequest rt this method params callback) = [params]"
  by (simp add: wire_params_def publicRequest_function)

lemma wire_private:
  "isFunction callback \<Longrightarrow> isObject params \<Longrightarrow> truthy (api_key this) \<Longrightarrow> truthy (secret this) \<Longrightarrow>
   wire_params (privateRequest rt this method params callback) =
     [set_prop (set_prop params ''api_key'' (api_key this)) ''sign''
        (Str (signMessage this (set_prop params ''api_key'' (api_key this))))]"
  by (simp add: wire_params_def privateRequest_function)

lemma put_put: "put (put ps k v) k w = put ps k w"
  by (induction ps) simp_all

lemma handleContractType_Obj:
  "handleContractType (Obj c ps) contract_type
     = Obj c (put ps ''contract_type'' (if truthy contract_type then contract_type else Str ''quarter''))"
  by (simp add: handleContractType_def put_put)

lemma determineError_cases:
  "determineError rt opts requestDesc r =
     (if truthy (err r) then
        Inr (Some \<lparr>cause = err r, message_format = ''%s failed %s'',
                   message_args = [Str ''OKEX.executeRequest()'', Str requestDesc],
                   name = get (err r) ''code'', info = Undefined\<rparr>, data r)
      else if statusCode r < 200 \<or> 300 \<le> statusCode r then
        Inr (Some (httpError requestDesc (statusCode r)), data r)
      else if truthy (opt_form opts) then
        (case JSON_parse rt (data r) of
           Inr parsed \<Rightarrow> Inr (None, parsed)
         | Inl e \<Rightarrow>
             (case sprintf_error (''Could not parse response from server: '' @ toString (data r)) 0 of
                Some x \<Rightarrow> Inl x
              | None \<Rightarrow>
                  Inr (Some \<lparr>cause = e,
                             message_format =
                               ''Could not parse response from server: '' @ toString (data r),
                             message_args = [], name = Str ''VError'', info = Undefined\<rparr>,
                       data r)))
      else if truthy (opt_json opts) \<and> \<not> isObject (data r) then
        Inr (Some \<lparr>cause = Undefined,
                   message_format =
                     ''%s could not parse response from %s'' @ [CHR 0x0A] @ ''Response: %s'',
                   message_args = [Str ''OKEX.executeRequest()'', Str requestDesc, data r],
                   name = Str ''VError'', info = Undefined\<rparr>, data r)
      else Inr (None, data r))"
  unfolding determineError_def Let_def determined_def VError_failed VError_status VError_unparsed
  by (simp add: httpError_def VError_def split: sum.splits option.splits)

lemma responseHandler_cases:
  "responseHandler rt opts requestDesc r =
     (case determineError rt opts requestDesc r of
        Inl x \<Rightarrow> Inl x
      | Inr (error, returnObject) \<Rightarrow>
          if has returnObject ''error_code''
          then Inr (Some (exchangeError requestDesc (get returnObject ''error_code'')), returnObject)
          else Inr (error, returnObject))"
  unfolding responseHandler_def Let_def determined_def VError_code
  by (simp add: exchangeError_def split: sum.splits prod.splits)

















text \<open>The digest on the first two strings of the test suite of RFC 1321.\<close>

lemma md5_test_suite:
  "md5 '''' = ''d41d8cd98f00b204e9800998ecf8427e''"
  "md5 ''abc'' = ''900150983cd24fb0d6963f7d28e17f72''"
  by code_simp+

lemma md5_addTrade_example:
  "md5 ''amount=1&api_key=key&price=100&symbol=btc_cny&type=buy&secret_key=secret''
     = ''11d15eb00ba8532efcf72d8c9c79dc8a''"
  by code_simp

lemma toUpperCase_example:
  "toUpperCase ''11d15eb00ba8532efcf72d8c9c79dc8a'' = ''11D15EB00BA8532EFCF72D8C9C79DC8A''"
  by code_simp

text \<open>
  The signer at a concrete input: the parameters of the \<open>addTrade\<close> example with the
  key and the secret of \<open>example.js\<close>.
\<close>

theorem signMessage_upper_hex_md5_witness:
  "signMessage (OKEX (Str ''key'') (Str ''secret'') Undefined Undefined)
     (Obj Plain [(''symbol'', Str ''btc_cny''), (''type'', Str ''buy''), (''amount'', Str ''1''),
                 (''price'', Str ''100''), (''api_key'', Str ''key'')])
   = ''11D15EB00BA8532EFCF72D8C9C79DC8A''"
proof -
  let ?c = "OKEX (Str ''key'') (Str ''secret'') Undefined Undefined"
  let ?params = "Obj Plain [(''symbol'', Str ''btc_cny''), (''type'', Str ''buy''),
                   (''amount'', Str ''1''), (''price'', Str ''100''), (''api_key'', Str ''key'')]"
  have canonical: "formatParameters ?params @ ''&secret_key='' @ toString (secret ?c)
          = ''amount=1&api_key=key&price=100&symbol=btc_cny&type=buy&secret_key=secret''"
    by (simp add: formatParameters_join pair_text_def OKEX_def)
  have "signMessage ?c ?params
          = toUpperCase (bytesToHex (md5_digest (stringToBytes
              (formatParameters ?params @ ''&secret_key='' @ toString (secret ?c)))))"
    using signMessage_upper_hex_md5 [of ?c ?params] by blast
  then show ?thesis
    using md5_addTrade_example toUpperCase_example
    by (simp only: canonical md5_def [symmetric])
qed

section \<open>The claims about requests and responses\<close>




text \<open>
  A reply on which the handler does not return. A private call answered with status 200
  and the body \<open>100% sure\<close>: \<open>JSON.parse\<close> refuses the body, the handler appends it to
  the format of the error it constructs, \<open>sprintf\<close> reads \<open>% s\<close> as a conversion
  without an argument and throws, and the callback is never called. The public branch
  passes the body as an argument of \<open>%s\<close>, and calls back.
\<close>

lemma unparsable_body_throws:
  "later (getUserInfo
       (example_runtime \<lparr>err = Null, statusCode = 200, data = Str ''100% sure''\<rparr>
          (Str ''{}'') (Inl (Str ''SyntaxError: Unexpected token % in JSON at position 3'')))
       (OKEX (Str ''key'') (Str ''secret'') Undefined Undefined) logResponse)
     = [Uncaught (Error ''too few args to sprintf'')]
   \<and> callbacks (events (getUserInfo
       (example_runtime \<lparr>err = Null, statusCode = 200, data = Str ''100% sure''\<rparr>
          (Str ''{}'') (Inl (Str ''SyntaxError: Unexpected token % in JSON at position 3'')))
       (OKEX (Str ''key'') (Str ''secret'') Undefined Undefined) logResponse))
     = []"
  by (simp add: getUserInfo_def privateRequest_def Let_def OKEX_def logResponse_def after_def
        executeRequest_def responseHandler_cases determineError_cases example_runtime_def
        sprintf_eval events_def)



text \<open>
  C5. For every private call with a callback function: when the API key or the secret
  is missing or empty the callback receives the configuration error, and when the
  credentials are present but the parameters are not an object it receives the argument
  error. The callback is called during the call, before it returns; nothing happens
  later, and no request is issued.
\<close>

theorem private_preconditions:
  assumes "isFunction callback"
  shows "(\<not> (truthy (api_key this) \<and> truthy (secret this)) \<longrightarrow>
            privateRequest rt this method params callback
              = Outcome [Callback (Some configurationError) Undefined] Returned [])
         \<and> (truthy (api_key this) \<and> truthy (secret this) \<and> \<not> isObject params \<longrightarrow>
            privateRequest rt this method params callback
              = Outcome [Callback (Some (argumentError params)) Undefined] Returned [])
         \<and> (\<not> (truthy (api_key this) \<and> truthy (secret this)) \<or> \<not> isObject params \<longrightarrow>
            requests (events (privateRequest rt this method params callback)) = [])"
  using assms
  by (auto simp: privateRequest_def Let_def construct_def VError_fixed invoke_function
        configurationError_def argumentError_def events_def)

theorem private_preconditions_witness:
  "privateRequest
     (example_runtime \<lparr>err = Null, statusCode = 200, data = Str ''{}''\<rparr> (Str ''{}'') (Inr (Obj Plain [])))
     (OKEX (Str '''') (Str '''') Undefined Undefined) (Str ''userinfo'') (Obj Plain []) logResponse
   = Outcome [Callback (Some configurationError) Undefined] Returned []
   \<and> privateRequest
     (example_runtime \<lparr>err = Null, statusCode = 200, data = Str ''{}''\<rparr> (Str ''{}'') (Inr (Obj Plain [])))
     (OKEX (Str ''key'') (Str ''secret'') Undefined Undefined) (Str ''userinfo'') Undefined logResponse
   = Outcome [Callback (Some (argumentError Undefined)) Undefined] Returned []"
  using private_preconditions
      [of logResponse "OKEX (Str '''') (Str '''') Undefined Undefined"
          "example_runtime \<lparr>err = Null, statusCode = 200, data = Str ''{}''\<rparr> (Str ''{}'') (Inr (Obj Plain []))"
          "Str ''userinfo''" "Obj Plain []"]
    private_preconditions
      [of logResponse "OKEX (Str ''key'') (Str ''secret'') Undefined Undefined"
          "example_runtime \<lparr>err = Null, statusCode = 200, data = Str ''{}''\<rparr> (Str ''{}'') (Inr (Obj Plain []))"
          "Str ''userinfo''" Undefined]
  by (simp add: OKEX_def logResponse_def)

text \<open>
  C6, at a call without a callback function. Both request builders construct the
  argument error and then pass it to the very callback that is missing, so the call
  throws a \<open>TypeError\<close> instead: the argument error reaches nobody. No request is
  issued, during the call or later.
\<close>

theorem missing_callback:
  "\<not> isFunction callback \<Longrightarrow>
     privateRequest rt this method params callback
       = Outcome [] (Threw (TypeError ''callback is not a function'')) []
     \<and> publicRequest rt this method params callback
       = Outcome [] (Threw (TypeError ''callback is not a function'')) []"
  by (simp add: privateRequest_def publicRequest_def Let_def construct_def VError_fixed
        invoke_other)

theorem missing_callback_witness:
  "getExchangeRate
     (example_runtime \<lparr>err = Null, statusCode = 200, data = Obj Plain [(''rate'', Num 6)]\<rparr>
        (Str ''{}'') (Inl Null))
     (OKEX Undefined Undefined Undefined Undefined) Undefined
   = Outcome [] (Threw (TypeError ''callback is not a function'')) []
   \<and> getUserInfo
     (example_runtime \<lparr>err = Null, statusCode = 200, data = Str ''{}''\<rparr> (Str ''{}'') (Inr (Obj Plain [])))
     (OKEX (Str ''key'') (Str ''secret'') Undefined Undefined) Undefined
   = Outcome [] (Threw (TypeError ''callback is not a function'')) []"
  using missing_callback
      [of Undefined
          "example_runtime \<lparr>err = Null, statusCode = 200, data = Str ''{}''\<rparr> (Str ''{}'') (Inr (Obj Plain []))"
          "OKEX (Str ''key'') (Str ''secret'') Undefined Undefined" "Str ''userinfo''" "Obj Plain []"]
    missing_callback
      [of Undefined
          "example_runtime \<lparr>err = Null, statusCode = 200, data = Obj Plain [(''rate'', Num 6)]\<rparr>
             (Str ''{}'') (Inl Null)"
          "OKEX Undefined Undefined Undefined Undefined" "Str ''exchange_rate''" "Obj Plain []"]
  by (simp add: getExchangeRate_def getUserInfo_def)




text \<open>
  C8. With a truthy API key and secret and a callback function,
  \<open>addTrade(cb, 'btc_cny', 'buy', '1', '100')\<close> issues one \<open>POST\<close> to the \<open>trade\<close>
  endpoint whose form has the fields \<open>symbol\<close>, \<open>type\<close>, \<open>amount\<close>, \<open>price\<close>,
  \<open>api_key\<close> and \<open>sign\<close>, where \<open>sign\<close> is the uppercase MD5 of the other five fields
  in key order, joined, followed by \<open>&secret_key=\<close> and the secret.
\<close>

theorem addTrade_signed:
  assumes "truthy (api_key this)" "truthy (secret this)" "isFunction callback"
  shows "requests (events (addTrade rt this callback (Str ''btc_cny'') (Str ''buy'') (Str ''1'') (Str ''100'')))
     = [\<lparr>opt_url = toString (server this) @ ''/api/v1/trade.do'',
         opt_method = ''POST'', opt_headers = headers, opt_timeout = Undefined,
         opt_qs = Undefined, opt_json = Undefined,
         opt_form = Obj Plain
           [(''symbol'', Str ''btc_cny''), (''type'', Str ''buy''), (''amount'', Str ''1''),
            (''price'', Str ''100''), (''api_key'', api_key this),
            (''sign'', Str (toUpperCase (md5
               (''amount=1&api_key='' @ toString (api_key this)
                  @ ''&price=100&symbol=btc_cny&type=buy&secret_key='' @ toString (secret this)))))]\<rparr>]"
  using assms
  by (simp add: addTrade_def privateRequest_function signMessage_def formatParameters_join
        pair_text_def)

theorem addTrade_signed_witness:
  "requests (events (addTrade
       (example_runtime \<lparr>err = Null, statusCode = 200, data = Str ''{\"result\":true,\"order_id\":123456}''\<rparr>
          (Str ''{\"symbol\":\"btc_cny\",\"type\":\"buy\",\"amount\":\"1\",\"price\":\"100\",\"api_key\":\"key\",\"sign\":\"11D15EB00BA8532EFCF72D8C9C79DC8A\"}'')
          (Inr (Obj Plain [(''result'', Bool True), (''order_id'', Num 123456)])))
       (OKEX (Str ''key'') (Str ''secret'') Undefined Undefined) logResponse
       (Str ''btc_cny'') (Str ''buy'') (Str ''1'') (Str ''100'')))
     = [\<lparr>opt_url = ''https://www.okex.com/api/v1/trade.do'',
         opt_method = ''POST'', opt_headers = headers, opt_timeout = Undefined,
         opt_qs = Undefined, opt_json = Undefined,
         opt_form = Obj Plain
           [(''symbol'', Str ''btc_cny''), (''type'', Str ''buy''), (''amount'', Str ''1''),
            (''price'', Str ''100''), (''api_key'', Str ''key''),
            (''sign'', Str ''11D15EB00BA8532EFCF72D8C9C79DC8A'')]\<rparr>]"
  using addTrade_signed [of "OKEX (Str ''key'') (Str ''secret'') Undefined Undefined" logResponse
      "example_runtime \<lparr>err = Null, statusCode = 200, data = Str ''{\"result\":true,\"order_id\":123456}''\<rparr>
          (Str ''{\"symbol\":\"btc_cny\",\"type\":\"buy\",\"amount\":\"1\",\"price\":\"100\",\"api_key\":\"key\",\"sign\":\"11D15EB00BA8532EFCF72D8C9C79DC8A\"}'')
          (Inr (Obj Plain [(''result'', Bool True), (''order_id'', Num 123456)]))"]
    md5_addTrade_example toUpperCase_example
  by (simp add: OKEX_def logResponse_def)

text \<open>
  C9, as the code has it. In \<open>getTrades\<close>, \<open>getKline\<close>, \<open>getFutureKline\<close>,
  \<open>addTrade\<close> and \<open>addFutureTrade\<close> an optional argument (\<open>since\<close>; \<open>type\<close>,
  \<open>size\<close>, \<open>since\<close>; \<open>amount\<close>, \<open>price\<close>, \<open>match_price\<close>) that is not supplied, or
  is falsy, is left out of the parameter mapping. \<open>getDepth\<close> and \<open>getFutureDepth\<close>
  send \<open>size\<close> and \<open>merge\<close> with the defaults 200 and 1 when they are not supplied, and
  the futures methods send \<open>contract_type\<close> with the default \<open>quarter\<close>.
\<close>

theorem optional_arguments:
  assumes "isFunction callback" "truthy (api_key this)" "truthy (secret this)"
  shows
   "wire_params (getTrades rt this callback symbol since)
      = [Obj Plain ((''symbol'', symbol) # (if truthy since then [(''since'', since)] else []))]
    \<and> wire_params (getKline rt this callback symbol type' size' since)
      = [Obj Plain ((''symbol'', symbol)
           # (if truthy type' then [(''type'', type')] else [])
           @ (if truthy size' then [(''size'', size')] else [])
           @ (if truthy since then [(''since'', since)] else []))]
    \<and> wire_params (getFutureKline rt this callback symbol type' size' since contract_type)
      = [Obj Plain ((''symbol'', symbol)
           # (if truthy type' then [(''type'', type')] else [])
           @ (if truthy size' then [(''size'', size')] else [])
           @ (if truthy since then [(''since'', since)] else [])
           @ [(''contract_type'', if truthy contract_type then contract_type else Str ''quarter'')])]
    \<and> map keys (wire_params (addTrade rt this callback symbol type' amount price))
      = [[''symbol'', ''type'']
           @ (if truthy amount then [''amount''] else [])
           @ (if truthy price then [''price''] else [])
           @ [''api_key'', ''sign'']]
    \<and> map keys (wire_params
          (addFutureTrade rt this callback symbol type' amount price match_price contract_type))
      = [[''symbol'', ''type'']
           @ (if truthy amount then [''amount''] else [])
           @ (if truthy price then [''price''] else [])
           @ (if truthy match_price then [''match_price''] else [])
           @ [''contract_type'', ''api_key'', ''sign'']]
    \<and> wire_params (getDepth rt this callback symbol size' merge')
      = [Obj Plain [(''symbol'', symbol),
                    (''size'', if isUndefined size' then Num 200 else size'),
                    (''merge'', if isUndefined merge' then Num 1 else merge')]]
    \<and> wire_params (getFutureDepth rt this callback symbol size' merge' contract_type)
      = [Obj Plain [(''symbol'', symbol),
                    (''size'', if isUndefined size' then Num 200 else size'),
                    (''merge'', if isUndefined merge' then Num 1 else merge'),
                    (''contract_type'', if truthy contract_type then contract_type else Str ''quarter'')]]"
proof -
  note pub = wire_public [OF assms(1)] and priv = wire_private [OF assms(1) _ assms(2,3)]
  have 1: "wire_params (getTrades rt this callback symbol since)
      = [Obj Plain ((''symbol'', symbol) # (if truthy since then [(''since'', since)] else []))]"
    by (simp add: getTrades_def pub)
  have 2: "wire_params (getKline rt this callback symbol type' size' since)
      = [Obj Plain ((''symbol'', symbol)
           # (if truthy type' then [(''type'', type')] else [])
           @ (if truthy size' then [(''size'', size')] else [])
           @ (if truthy since then [(''since'', since)] else []))]"
    by (simp add: getKline_def pub)
  have 3: "wire_params (getFutureKline rt this callback symbol type' size' since contract_type)
      = [Obj Plain ((''symbol'', symbol)
           # (if truthy type' then [(''type'', type')] else [])
           @ (if truthy size' then [(''size'', size')] else [])
           @ (if truthy since then [(''since'', since)] else [])
           @ [(''contract_type'', if truthy contract_type then contract_type else Str ''quarter'')])]"
    by (simp add: getFutureKline_def handleContractType_Obj pub)
  have 4: "map keys (wire_params (addTrade rt this callback symbol type' amount price))
      = [[''symbol'', ''type'']
           @ (if truthy amount then [''amount''] else [])
           @ (if truthy price then [''price''] else [])
           @ [''api_key'', ''sign'']]"
    by (simp add: addTrade_def priv)
  have 5: "map keys (wire_params
          (addFutureTrade rt this callback symbol type' amount price match_price contract_type))
      = [[''symbol'', ''type'']
           @ (if truthy amount then [''amount''] else [])
           @ (if truthy price then [''price''] else [])
           @ (if truthy match_price then [''match_price''] else [])
           @ [''contract_type'', ''api_key'', ''sign'']]"
    by (simp add: addFutureTrade_def handleContractType_Obj priv)
  have 6: "wire_params (getDepth rt this callback symbol size' merge')
      = [Obj Plain [(''symbol'', symbol),
                    (''size'', if isUndefined size' then Num 200 else size'),
                    (''merge'', if isUndefined merge' then Num 1 else merge')]]"
    by (simp add: getDepth_def pub)
  have 7: "wire_params (getFutureDepth rt this callback symbol size' merge' contract_type)
      = [Obj Plain [(''symbol'', symbol),
                    (''size'', if isUndefined size' then Num 200 else size'),
                    (''merge'', if isUndefined merge' then Num 1 else merge'),
                    (''contract_type'', if truthy contract_type then contract_type else Str ''quarter'')]]"
    by (simp add: getFutureDepth_def handleContractType_Obj pub)
  show ?thesis
    using 1 2 3 4 5 6 7 by blast
qed

theorem optional_arguments_witness:
  "wire_params (getKline
       (example_runtime \<lparr>err = Null, statusCode = 200, data = Obj Plain []\<rparr>
          (Str ''{\"symbol\":\"btc_usd\"}'') (Inl Null))
       (OKEX (Str ''key'') (Str ''secret'') Undefined Undefined) logResponse
       (Str ''btc_usd'') Undefined Undefined Undefined)
     = [Obj Plain [(''symbol'', Str ''btc_usd'')]]
   \<and> wire_params (getKline
       (example_runtime \<lparr>err = Null, statusCode = 200, data = Obj Plain []\<rparr>
          (Str ''{\"symbol\":\"btc_usd\",\"type\":\"30min\"}'') (Inl Null))
       (OKEX (Str ''key'') (Str ''secret'') Undefined Undefined) logResponse
       (Str ''btc_usd'') (Str ''30min'') Undefined Undefined)
     = [Obj Plain [(''symbol'', Str ''btc_usd''), (''type'', Str ''30min'')]]"
  using optional_arguments
      [of logResponse "OKEX (Str ''key'') (Str ''secret'') Undefined Undefined"
          "example_runtime \<lparr>err = Null, statusCode = 200, data = Obj Plain []\<rparr>
             (Str ''{\"symbol\":\"btc_usd\"}'') (Inl Null)"
          "Str ''btc_usd''" Undefined Undefined Undefined]
    optional_arguments
      [of logResponse "OKEX (Str ''key'') (Str ''secret'') Undefined Undefined"
          "example_runtime \<lparr>err = Null, statusCode = 200, data = Obj Plain []\<rparr>
             (Str ''{\"symbol\":\"btc_usd\",\"type\":\"30min\"}'') (Inl Null)"
          "Str ''btc_usd''" Undefined "Str ''30min''" Undefined]
  by (simp add: OKEX_def logResponse_def)

text \<open>
  C9 as stated fails: \<open>getDepth(cb, 'btc_usd')\<close> supplies neither \<open>size\<close> nor
  \<open>merge\<close>, and both keys are sent.
\<close>

theorem getDepth_defaults_sent:
  "wire_params (getDepth
       (example_runtime \<lparr>err = Null, statusCode = 200, data = Obj Plain [(''asks'', Str ''''), (''bids'', Str '''')]\<rparr>
          (Str ''{\"symbol\":\"btc_usd\",\"size\":200,\"merge\":1}'') (Inl Null))
       (OKEX Undefined Undefined Undefined Undefined) logResponse (Str ''btc_usd'') Undefined Undefined)
     = [Obj Plain [(''symbol'', Str ''btc_usd''), (''size'', Num 200), (''merge'', Num 1)]]"
  by (simp add: getDepth_def wire_public logResponse_def isUndefined_def)

text \<open>
  A method that passes an argument unconditionally keeps its key:
  \<open>getTradeHistory(cb, symbol)\<close> sends \<open>since\<close> with the value \<open>undefined\<close>, and signs
  \<open>since=undefined\<close>.
\<close>

lemma getTradeHistory_since_undefined:
  assumes "isFunction callback" "truthy (api_key this)" "truthy (secret this)"
  shows "wire_params (getTradeHistory rt this callback (Str ''btc_usd'') Undefined)
     = [Obj Plain
          [(''symbol'', Str ''btc_usd''), (''since'', Undefined), (''api_key'', api_key this),
           (''sign'', Str (toUpperCase (md5
              (''api_key='' @ toString (api_key this)
                 @ ''&since=undefined&symbol=btc_usd&secret_key='' @ toString (secret this)))))]]"
  using assms
  by (simp add: getTradeHistory_def wire_private signMessage_def formatParameters_join
        pair_text_def)

text \<open>
  C10. For every symbol, \<open>getLendDepth\<close> does exactly what \<open>getKline\<close> does when
  called with the symbol alone: with a callback function it issues one \<open>GET\<close> to the
  \<open>kline\<close> endpoint with the parameter mapping \<open>{symbol}\<close>, and otherwise it issues
  nothing; it never issues a request to another endpoint.
\<close>

theorem getLendDepth_kline:
  "getLendDepth rt this callback symbol = getKline rt this callback symbol Undefined Undefined Undefined
   \<and> requests (events (getLendDepth rt this callback symbol)) =
       (if isFunction callback then
          [\<lparr>opt_url = toString (server this) @ ''/api/v1/kline.do'',
            opt_method = ''GET'', opt_headers = headers, opt_timeout = timeout this,
            opt_qs = Obj Plain [(''symbol'', symbol)], opt_json = Obj Plain [],
            opt_form = Undefined\<rparr>]
        else [])"
proof -
  have same: "getLendDepth rt this callback symbol
                = getKline rt this callback symbol Undefined Undefined Undefined"
    by (simp add: getLendDepth_def getKline_def)
  have "requests (events (getLendDepth rt this callback symbol)) = []" if "\<not> isFunction callback"
    using that
    by (simp add: getLendDepth_def publicRequest_def construct_def VError_fixed invoke_other
          events_def)
  moreover have "requests (events (getLendDepth rt this callback symbol)) =
          [\<lparr>opt_url = toString (server this) @ ''/api/v1/kline.do'',
            opt_method = ''GET'', opt_headers = headers, opt_timeout = timeout this,
            opt_qs = Obj Plain [(''symbol'', symbol)], opt_json = Obj Plain [],
            opt_form = Undefined\<rparr>]" if "isFunction callback"
    using that by (simp add: getLendDepth_def publicRequest_function)
  ultimately show ?thesis
    using same by simp
qed

theorem getLendDepth_kline_witness:
  "requests (events (getLendDepth
       (example_runtime \<lparr>err = Null, statusCode = 200, data = Obj Plain []\<rparr>
          (Str ''{\"symbol\":\"btc_usd\"}'') (Inl Null))
       (OKEX Undefined Undefined Undefined Undefined) logResponse (Str ''btc_usd'')))
     = [\<lparr>opt_url = ''https://www.okex.com/api/v1/kline.do'',
         opt_method = ''GET'', opt_headers = headers, opt_timeout = Num 20000,
         opt_qs = Obj Plain [(''symbol'', Str ''btc_usd'')], opt_json = Obj Plain [],
         opt_form = Undefined\<rparr>]"
proof -
  let ?rt = "example_runtime \<lparr>err = Null, statusCode = 200, data = Obj Plain []\<rparr>
               (Str ''{\"symbol\":\"btc_usd\"}'') (Inl Null)"
  let ?c = "OKEX Undefined Undefined Undefined Undefined"
  have "requests (events (getLendDepth ?rt ?c logResponse (Str ''btc_usd''))) =
       (if isFunction logResponse then
          [\<lparr>opt_url = toString (server ?c) @ ''/api/v1/kline.do'',
            opt_method = ''GET'', opt_headers = headers, opt_timeout = timeout ?c,
            opt_qs = Obj Plain [(''symbol'', Str ''btc_usd'')], opt_json = Obj Plain [],
            opt_form = Undefined\<rparr>]
        else [])"
    using getLendDepth_kline [of ?rt ?c logResponse "Str ''btc_usd''"] by (rule conjunct2)
  then show ?thesis
    by (simp add: OKEX_def logResponse_def)
qed

end
